theory Spec2Isabelle
  imports Complex_Main "HOL-Library.Word"
begin

unbundle bit_operations_syntax

section \<open>Effects of the apps as a trace of events\<close>

text \<open>
  The apps talk to four collaborators of the firmware: the I2C bus, the display, the
  keyboard and the machine (sleep, reset).  Every call to one of them is an event; a
  function of the model returns the events it issues, in order, next to its result.
\<close>

type_synonym color = nat

datatype font = vga1_8x16 | vga1_8x8 | default_font

datatype event =
    I2CInit                            \<comment> \<open>\<open>I2C(0, sda=Pin(2), scl=Pin(1), freq=100000, timeout=8000)\<close>\<close>
  | I2CScan                            \<comment> \<open>\<open>i2c.scan()\<close>\<close>
  | WriteToMem nat nat "nat list"      \<comment> \<open>\<open>i2c.writeto_mem(addr, reg, bytes)\<close>\<close>
  | ReadFromMemInto nat nat nat        \<comment> \<open>\<open>i2c.readfrom_mem_into(addr, reg, buf)\<close>, with \<open>len(buf)\<close>\<close>
  | SleepMs nat                        \<comment> \<open>\<open>time.sleep_ms(n)\<close>\<close>
  | GetNewKeys                         \<comment> \<open>\<open>kb.get_new_keys()\<close>\<close>
  | Reset                              \<comment> \<open>\<open>machine.reset()\<close>: the board restarts, nothing follows\<close>
  | Fill color                         \<comment> \<open>\<open>display.fill(color)\<close>\<close>
  | FillRect int int int int color     \<comment> \<open>\<open>display.fill_rect(x, y, w, h, color)\<close>\<close>
  | Text string int int color font     \<comment> \<open>\<open>display.text(s, x, y, color, font=...)\<close>\<close>
  | Bitmap int int color color int     \<comment> \<open>\<open>tft.bitmap(icon, x, y, palette=(bg, fg), index=i)\<close>\<close>
  | Show                               \<comment> \<open>\<open>display.show()\<close>\<close>
  | Uncaught string                    \<comment> \<open>an exception that leaves \<open>main\<close>\<close>

fun is_i2c :: "event \<Rightarrow> bool" where
  "is_i2c I2CInit = True"
| "is_i2c I2CScan = True"
| "is_i2c (WriteToMem a r bs) = True"
| "is_i2c (ReadFromMemInto a r n) = True"
| "is_i2c e = False"

fun is_bus_read :: "event \<Rightarrow> bool" where
  "is_bus_read (ReadFromMemInto a r n) = True"
| "is_bus_read e = False"

fun is_display :: "event \<Rightarrow> bool" where
  "is_display (Fill c) = True"
| "is_display (FillRect x y w h c) = True"
| "is_display (Text s x y c f) = True"
| "is_display (Bitmap x y b f i) = True"
| "is_display Show = True"
| "is_display e = False"

section \<open>String formatting of Python\<close>

definition digit_char :: "nat \<Rightarrow> char" where
  "digit_char d = (''0123456789ABCDEF'' ! (d mod 16))"

fun dec_str :: "nat \<Rightarrow> string" where
  "dec_str n = (if n < 10 then [digit_char n] else dec_str (n div 10) @ [digit_char (n mod 10)])"

declare dec_str.simps [simp del]

fun hex_str :: "nat \<Rightarrow> string" where
  "hex_str n = (if n < 16 then [digit_char n] else hex_str (n div 16) @ [digit_char (n mod 16)])"

declare hex_str.simps [simp del]

text \<open>\<open>f"{n}"\<close> for an int.\<close>

definition fmt_d :: "int \<Rightarrow> string" where
  "fmt_d n = (if n < 0 then CHR ''-'' # dec_str (nat (- n)) else dec_str (nat n))"

text \<open>\<open>f"{n:02d}"\<close>: the sign counts in the width, zeros fill after it.\<close>

definition fmt_02d :: "int \<Rightarrow> string" where
  "fmt_02d n =
     (if n < 0 then CHR ''-'' # dec_str (nat (- n))
      else if n < 10 then CHR ''0'' # dec_str (nat n)
      else dec_str (nat n))"

text \<open>\<open>f"{d:02X}"\<close> for a bus address, which is never negative.\<close>

definition fmt_02X :: "nat \<Rightarrow> string" where
  "fmt_02X d = (if d < 16 then CHR ''0'' # hex_str d else hex_str d)"

text \<open>\<open>sep.join(xs)\<close>\<close>

fun join :: "string \<Rightarrow> string list \<Rightarrow> string" where
  "join sep [] = []"
| "join sep [x] = x"
| "join sep (x # y # ys) = x @ sep @ join sep (y # ys)"

section \<open>Register codec and scaled reader (IMU\_Live.py, class MPUReader)\<close>

text \<open>
  A \<open>bytearray\<close> element is a Python int in the range 0..255: the buffer is a list of
  8-bit words and every element is read through \<open>uint\<close>.  Python ints are unbounded,
  so the decoded value is an \<open>int\<close>.
\<close>

type_synonym byte = "8 word"

definition MPU_PWR_MGMT_1 :: nat where "MPU_PWR_MGMT_1 = 0x6B"
definition MPU_ACCEL_XOUT_H :: nat where "MPU_ACCEL_XOUT_H = 0x3B"
definition MPU_ADDRESSES :: "nat list" where "MPU_ADDRESSES = [0x68, 0x69]"
definition MAX_ERROR_CHARS :: nat where "MAX_ERROR_CHARS = 28"

text \<open>
  The scaled values are modelled as real numbers: the division below is the exact one,
  without the rounding of the machine's float format.
\<close>

definition ACCEL_SCALE :: real where "ACCEL_SCALE = 16384"
definition GYRO_SCALE :: real where "GYRO_SCALE = 131"

text \<open>
  \<^verbatim>\<open>value = (high_byte << 8) | low_byte; if value >= 0x8000: value -= 0x10000\<close>
\<close>

definition bytes_to_int16 :: "int \<Rightarrow> int \<Rightarrow> int" where
  "bytes_to_int16 high_byte low_byte =
     (let v = (push_bit 8 high_byte) OR low_byte
      in if v \<ge> 0x8000 then v - 0x10000 else v)"

text \<open>
  Indexing a buffer: Python raises \<open>IndexError\<close> outside the range, which the
  \<open>except Exception\<close> of \<open>read_raw_data\<close> turns into \<open>None\<close>.
\<close>

definition byte_at :: "byte list \<Rightarrow> nat \<Rightarrow> int option" where
  "byte_at buf i = (if i < length buf then Some (uint (buf ! i)) else None)"

definition pair_at :: "byte list \<Rightarrow> nat \<Rightarrow> int option" where
  "pair_at buf i =
     Option.bind (byte_at buf i) (\<lambda>h.
     Option.bind (byte_at buf (i + 1)) (\<lambda>l.
       Some (bytes_to_int16 h l)))"

type_synonym raw_sample = "int \<times> int \<times> int \<times> int \<times> int \<times> int"
type_synonym scaled_sample = "real \<times> real \<times> real \<times> real \<times> real \<times> real"

text \<open>
  The six conversions of \<open>read_raw_data\<close> on the buffer the bus read has filled:
  pairs at 0, 2, 4 for the accelerometer, at 8, 10, 12 for the gyroscope.
\<close>

definition decode_buffer :: "byte list \<Rightarrow> raw_sample option" where
  "decode_buffer buf =
     Option.bind (pair_at buf 0) (\<lambda>accel_x.
     Option.bind (pair_at buf 2) (\<lambda>accel_y.
     Option.bind (pair_at buf 4) (\<lambda>accel_z.
     Option.bind (pair_at buf 8) (\<lambda>gyro_x.
     Option.bind (pair_at buf 10) (\<lambda>gyro_y.
     Option.bind (pair_at buf 12) (\<lambda>gyro_z.
       Some (accel_x, accel_y, accel_z, gyro_x, gyro_y, gyro_z)))))))"

text \<open>
  The device handle.  The transport it is bound to is the single bus of the world, so the
  record keeps the address and the 14-byte buffer.
\<close>

record MPUReader =
  address :: nat
  buffer :: "byte list"

text \<open>
  The bus as discovery sees it: what \<open>scan()\<close> returns (\<open>Inl\<close>: it raises, with the
  exception's text) and, for each address, whether the wake-up write raises
  (\<open>Some\<close> the exception's text) or is accepted (\<open>None\<close>).
\<close>

record i2c_bus =
  scan_result :: "string + nat list"
  wake_result :: "nat \<Rightarrow> string option"

text \<open>
  \<open>MPUReader.__init__\<close>: the write of 0 to \<open>PWR_MGMT_1\<close>, then 100 ms of sleep; a
  failing write becomes a \<open>RuntimeError\<close>.
\<close>

definition MPUReader_init :: "i2c_bus \<Rightarrow> nat \<Rightarrow> (string + MPUReader) \<times> event list" where
  "MPUReader_init i2c addr =
     (case wake_result i2c addr of
        None \<Rightarrow> (Inr \<lparr>address = addr, buffer = replicate 14 0\<rparr>,
                 [WriteToMem addr MPU_PWR_MGMT_1 [0], SleepMs 100])
      | Some e \<Rightarrow> (Inl (''Failed to initialize MPU: '' @ e),
                 [WriteToMem addr MPU_PWR_MGMT_1 [0]]))"

text \<open>
  \<open>read_raw_data\<close>.  The argument \<open>rd\<close> is what the bus does at this read: \<open>None\<close>
  when \<open>readfrom_mem_into\<close> raises, \<open>Some bs\<close> when it fills the buffer with \<open>bs\<close>.
\<close>

definition read_raw_data ::
  "MPUReader \<Rightarrow> byte list option \<Rightarrow> raw_sample option \<times> MPUReader \<times> event list" where
  "read_raw_data self rd =
     (let ev = [ReadFromMemInto (address self) MPU_ACCEL_XOUT_H (length (buffer self))]
      in case rd of
           None \<Rightarrow> (None, self, ev)
         | Some bs \<Rightarrow> (decode_buffer bs, self\<lparr>buffer := bs\<rparr>, ev))"

definition read_scaled_data ::
  "MPUReader \<Rightarrow> byte list option \<Rightarrow> scaled_sample option \<times> MPUReader \<times> event list" where
  "read_scaled_data self rd =
     (case read_raw_data self rd of
        (None, self', ev) \<Rightarrow> (None, self', ev)
      | (Some (accel_x, accel_y, accel_z, gyro_x, gyro_y, gyro_z), self', ev) \<Rightarrow>
          (Some (real_of_int accel_x / ACCEL_SCALE,
                 real_of_int accel_y / ACCEL_SCALE,
                 real_of_int accel_z / ACCEL_SCALE,
                 real_of_int gyro_x / GYRO_SCALE,
                 real_of_int gyro_y / GYRO_SCALE,
                 real_of_int gyro_z / GYRO_SCALE), self', ev))"

section \<open>Orientation estimator (IMU\_Live.py, compute\_pitch\_roll)\<close>

text \<open>
  The sign of a zero decides what \<open>math.atan2\<close> returns, so the floats of this function
  keep it: \<open>Zero False\<close> is 0.0, \<open>Zero True\<close> is -0.0, and \<open>Val r\<close> is a number \<open>r\<close>
  that is not zero.  The arithmetic is the exact one on such numbers, with the rules of
  IEEE 754 for the zeros; rounding, infinities and NaN are not modelled.
\<close>

datatype pyfloat = Zero bool | Val real

text \<open>
  A quotient of an int by a positive constant, as the scaled reader computes it, is 0.0
  and never -0.0 when it is zero.
\<close>

definition float_of_real :: "real \<Rightarrow> pyfloat" where
  "float_of_real r = (if r = 0 then Zero False else Val r)"



fun signbit :: "pyfloat \<Rightarrow> bool" where
  "signbit (Zero s) = s"
| "signbit (Val r) = (r < 0)"

fun float_neg :: "pyfloat \<Rightarrow> pyfloat" where
  "float_neg (Zero s) = Zero (\<not> s)"
| "float_neg (Val r) = Val (- r)"

fun float_mul :: "pyfloat \<Rightarrow> pyfloat \<Rightarrow> pyfloat" where
  "float_mul (Val a) (Val b) = Val (a * b)"
| "float_mul x y = Zero (signbit x \<noteq> signbit y)"

fun float_add :: "pyfloat \<Rightarrow> pyfloat \<Rightarrow> pyfloat" where
  "float_add (Zero a) (Zero b) = Zero (a \<and> b)"
| "float_add (Zero a) (Val r) = Val r"
| "float_add (Val r) (Zero b) = Val r"
| "float_add (Val a) (Val b) = (if a + b = 0 then Zero False else Val (a + b))"

text \<open>\<open>x / y\<close>: a \<open>ZeroDivisionError\<close> at a zero divisor.\<close>

fun float_div :: "pyfloat \<Rightarrow> pyfloat \<Rightarrow> pyfloat option" where
  "float_div x (Zero s) = None"
| "float_div (Zero s) (Val b) = Some (Zero (s \<noteq> (b < 0)))"
| "float_div (Val a) (Val b) = Some (Val (a / b))"

text \<open>\<open>math.sqrt\<close>: a \<open>ValueError\<close> below zero; the root of -0.0 is -0.0.\<close>

fun py_sqrt :: "pyfloat \<Rightarrow> pyfloat option" where
  "py_sqrt (Zero s) = Some (Zero s)"
| "py_sqrt (Val r) = (if r < 0 then None else Some (Val (sqrt r)))"

text \<open>
  \<open>math.atan2(y, x)\<close>, which never raises.  At \<open>y\<close> zero it returns a zero of the sign
  of \<open>y\<close> when \<open>x\<close> is positive or 0.0, and pi with the sign of \<open>y\<close> when \<open>x\<close> is negative
  or -0.0; at \<open>x\<close> zero and \<open>y\<close> not zero it returns pi / 2 with the sign of \<open>y\<close>.
\<close>

fun atan2 :: "pyfloat \<Rightarrow> pyfloat \<Rightarrow> pyfloat" where
  "atan2 (Zero sy) (Zero sx) = (if sx then Val (if sy then - pi else pi) else Zero sy)"
| "atan2 (Zero sy) (Val x) = (if x < 0 then Val (if sy then - pi else pi) else Zero sy)"
| "atan2 (Val y) (Zero sx) = Val (if y < 0 then - pi / 2 else pi / 2)"
| "atan2 (Val y) (Val x) =
     Val (if x > 0 then arctan (y / x)
          else if y < 0 then arctan (y / x) - pi
          else arctan (y / x) + pi)"

text \<open>
  \<open>compute_pitch_roll\<close>, lines 105 to 121: any exception of the two lines gives the
  fallback \<open>(0.0, 0.0)\<close>.
\<close>

definition compute_pitch_roll :: "pyfloat \<Rightarrow> pyfloat \<Rightarrow> pyfloat \<Rightarrow> pyfloat \<times> pyfloat" where
  "compute_pitch_roll ax ay az =
     (case py_sqrt (float_add (float_mul ax ax) (float_mul az az)) of
        None \<Rightarrow> (Zero False, Zero False)
      | Some s \<Rightarrow>
          (case float_div (float_mul (atan2 ay s) (Val 180)) (Val pi) of
             None \<Rightarrow> (Zero False, Zero False)
           | Some pitch \<Rightarrow>
               (case float_div (float_mul (atan2 (float_neg ax) az) (Val 180)) (Val pi) of
                  None \<Rightarrow> (Zero False, Zero False)
                | Some roll \<Rightarrow> (pitch, roll))))"

section \<open>Device discovery (IMU\_Live.py, try\_init\_imu)\<close>

text \<open>
  The loop over \<open>MPU_ADDRESSES\<close>: an address that is not among the scanned devices is
  skipped, one whose \<open>MPUReader\<close> cannot be built is skipped after the attempt, the first
  one that can be built is returned.
\<close>

fun try_addresses :: "i2c_bus \<Rightarrow> nat list \<Rightarrow> nat list \<Rightarrow> MPUReader option \<times> event list" where
  "try_addresses i2c devices [] = (None, [])"
| "try_addresses i2c devices (addr # rest) =
     (if addr \<in> set devices then
        (case MPUReader_init i2c addr of
           (Inr mpu, ev) \<Rightarrow> (Some mpu, ev)
         | (Inl e, ev) \<Rightarrow>
             (case try_addresses i2c devices rest of (r, ev') \<Rightarrow> (r, ev @ ev')))
      else try_addresses i2c devices rest)"

definition device_list :: "nat list \<Rightarrow> string" where
  "device_list devices = join '', '' (map (\<lambda>d. ''0x'' @ fmt_02X d) devices)"

text \<open>
  The argument is the outcome of the \<open>I2C(...)\<close> constructor: \<open>Inl\<close> the text of the
  exception it raises, \<open>Inr\<close> the bus.  The result is the pair \<open>(mpu, error)\<close>.
\<close>

definition try_init_imu ::
  "string + i2c_bus \<Rightarrow> (MPUReader option \<times> string option) \<times> event list" where
  "try_init_imu opened =
     (case opened of
        Inl e \<Rightarrow> ((None, Some (''I2C init failed: '' @ e)), [I2CInit])
      | Inr i2c \<Rightarrow>
          (case scan_result i2c of
             Inl e \<Rightarrow> ((None, Some (''I2C scan failed: '' @ e)), [I2CInit, I2CScan])
           | Inr devices \<Rightarrow>
               if devices = [] then ((None, Some ''No I2C devices found''), [I2CInit, I2CScan])
               else
                 (case try_addresses i2c devices MPU_ADDRESSES of
                    (Some mpu, ev) \<Rightarrow> ((Some mpu, None), I2CInit # I2CScan # ev)
                  | (None, ev) \<Rightarrow>
                      ((None, Some (''No MPU found. Devices: '' @ device_list devices)),
                       I2CInit # I2CScan # ev))))"

section \<open>Status bar with its cache of last drawn values (lib/hydra/statusbar.py)\<close>

record StatusBar =
  height :: int
  use_12h :: bool
  last_time_str :: string
  last_batt_level :: int
  battery :: bool          \<comment> \<open>\<open>self._battery\<close> is a \<open>Battery\<close> object, not \<open>None\<close>\<close>
  battery_icon :: bool     \<comment> \<open>\<open>self._battery_icon\<close> is an icon, not \<open>None\<close>\<close>

text \<open>
  \<open>StatusBar.__init__\<close>.  The two flags say whether \<open>lib.battlevel\<close> can be imported and
  its \<open>Battery()\<close> built, and whether \<open>launcher.icons.battery\<close> can be imported.
\<close>

definition StatusBar_init :: "int \<Rightarrow> bool \<Rightarrow> bool \<Rightarrow> bool \<Rightarrow> StatusBar" where
  "StatusBar_init h u12 battlevel_ok icon_ok =
     \<lparr>height = h, use_12h = u12, last_time_str = [], last_batt_level = - 1,
      battery = battlevel_ok, battery_icon = icon_ok\<rparr>"

text \<open>What one call of \<open>draw\<close> finds around it.\<close>

record draw_env =
  config :: "(nat \<Rightarrow> color) option"   \<comment> \<open>\<open>Config().palette\<close>, \<open>None\<close> when it cannot be had\<close>
  localtime :: "(int \<times> int) option"     \<comment> \<open>hour and minute of \<open>time.localtime()\<close>, \<open>None\<close> when it raises\<close>
  have_vga1_8x16 :: bool                \<comment> \<open>\<open>from font import vga1_8x16\<close> succeeds\<close>
  have_vga1_8x8 :: bool                 \<comment> \<open>\<open>from font import vga1_8x8\<close> succeeds\<close>
  read_level :: "int option"            \<comment> \<open>\<open>Battery.read_level()\<close>, \<open>None\<close> when it raises\<close>
  bitmap_raises :: bool                 \<comment> \<open>\<open>tft.bitmap\<close> raises\<close>
  tft_width :: int

definition bar_colors :: "draw_env \<Rightarrow> color \<times> color" where
  "bar_colors env = (case config env of Some pal \<Rightarrow> (pal 1, pal 0) | None \<Rightarrow> (0x0000, 0xFFFF))"

text \<open>The candidate of the time region: lines 62 to 77.\<close>

definition time_str :: "StatusBar \<Rightarrow> draw_env \<Rightarrow> string" where
  "time_str self env =
     (case localtime env of
        None \<Rightarrow> ''--:--''
      | Some (hour, minute) \<Rightarrow>
          (let hour' = (if use_12h self
                        then (if hour = 0 then 12 else if hour > 12 then hour - 12 else hour)
                        else hour)
           in fmt_02d hour' @ '':'' @ fmt_02d minute))"

text \<open>The candidate of the battery region: lines 93 to 100.\<close>

definition batt_level :: "StatusBar \<Rightarrow> draw_env \<Rightarrow> int" where
  "batt_level self env =
     (if battery self then (case read_level env of Some v \<Rightarrow> v | None \<Rightarrow> - 1) else - 1)"

text \<open>The time region: lines 79 to 91.\<close>

definition draw_time :: "StatusBar \<Rightarrow> draw_env \<Rightarrow> StatusBar \<times> event list" where
  "draw_time self env =
     (let (bg_color, fg_color) = bar_colors env; t = time_str self env
      in if t \<noteq> last_time_str self then
           (self\<lparr>last_time_str := t\<rparr>,
            [FillRect 0 0 60 (height self) bg_color,
             if have_vga1_8x16 env then Text t 2 0 fg_color vga1_8x16
             else Text t 2 2 fg_color default_font])
         else (self, []))"

text \<open>The battery region: lines 102 to 131.\<close>

definition draw_battery :: "StatusBar \<Rightarrow> draw_env \<Rightarrow> StatusBar \<times> event list" where
  "draw_battery self env =
     (let (bg_color, fg_color) = bar_colors env; b = batt_level self env
      in if b \<noteq> last_batt_level self then
           (let batt_x = tft_width env - 30;
                batt_text = fmt_d b @ ''%''
            in (self\<lparr>last_batt_level := b\<rparr>,
                FillRect batt_x 0 30 (height self) bg_color #
                (if b \<ge> 0 \<and> battery_icon self then
                   (if bitmap_raises env then [Text batt_text (batt_x + 2) 2 fg_color default_font]
                    else [Bitmap (tft_width env - 20) 2 bg_color fg_color b])
                 else if b \<ge> 0 then
                   (if have_vga1_8x8 env then [Text batt_text (batt_x + 2) 4 fg_color vga1_8x8]
                    else [Text batt_text (batt_x + 2) 2 fg_color default_font])
                 else [])))
         else (self, []))"

definition draw :: "StatusBar \<Rightarrow> draw_env \<Rightarrow> StatusBar \<times> event list" where
  "draw self env =
     (case draw_time self env of (self1, ev1) \<Rightarrow>
        (case draw_battery self1 env of (self2, ev2) \<Rightarrow> (self2, ev1 @ ev2)))"

section \<open>The live readout (IMU\_Live.py, main)\<close>

text \<open>
  What \<open>main\<close> finds at start: the outcome of opening the bus, the palette and the size
  of the display, the two imports of the status bar, the rendering of \<open>f"{x:W.Pf}"\<close>
  (a parameter: no claim depends on the digits of a float), and the surroundings of
  the two status bar draws before the loops.
\<close>

record world =
  i2c_open :: "string + i2c_bus"
  palette :: "nat \<Rightarrow> color"
  display_width :: int
  display_height :: int
  battlevel_ok :: bool
  icon_ok :: bool
  fmt_f :: "nat \<Rightarrow> nat \<Rightarrow> pyfloat \<Rightarrow> string"
  env_init :: draw_env
  env_error :: draw_env

text \<open>What one iteration of the polling loop finds: the new keys, the bus read, the status bar's surroundings.\<close>

record tick =
  keys :: "string list"
  bus_read :: "byte list option"
  bar_env :: draw_env

text \<open>The loop of the error branch, lines 187 to 191, over the keys of each iteration.\<close>

fun unavailable_loop :: "string list list \<Rightarrow> event list" where
  "unavailable_loop [] = []"
| "unavailable_loop (ks # rest) =
     GetNewKeys # (if ''G0'' \<in> set ks then [Reset] else SleepMs 50 # unavailable_loop rest)"

text \<open>
  One iteration of the polling loop, lines 197 to 253: \<open>None\<close> after \<open>reset()\<close>, else the
  status bar and the reader as the iteration leaves them.
\<close>

definition poll_iteration ::
  "world \<Rightarrow> StatusBar \<Rightarrow> MPUReader \<Rightarrow> int \<Rightarrow> tick \<Rightarrow> (StatusBar \<times> MPUReader) option \<times> event list" where
  "poll_iteration w status_bar mpu y_offset t =
     (let bg_color = palette w 2; fg_color = palette w 0; highlight_color = palette w 10;
          clear = FillRect 0 (height status_bar) (display_width w)
                    (display_height w - height status_bar) bg_color
      in if ''G0'' \<in> set (keys t) then (None, [GetNewKeys, Reset])
         else
           (case read_scaled_data mpu (bus_read t) of
              (Some (ax, ay, az, gx, gy, gz), mpu', ev_read) \<Rightarrow>
                (case compute_pitch_roll (float_of_real ax) (float_of_real ay) (float_of_real az) of
                   (pitch, roll) \<Rightarrow>
                 (case draw status_bar (bar_env t) of (status_bar', ev_bar) \<Rightarrow>
                   (let line_height = 16; x2 = 130;
                        y = display_height w - line_height * 2 - 2
                    in (Some (status_bar', mpu'),
                        GetNewKeys # ev_read @ [clear] @ ev_bar @
                        [Text ''Accelerometer (g):'' 5 y_offset highlight_color vga1_8x16,
                         Text ('' X: '' @ fmt_f w 6 2 (float_of_real ax)) 5 (y_offset + line_height) fg_color vga1_8x16,
                         Text ('' Y: '' @ fmt_f w 6 2 (float_of_real ay)) 5 (y_offset + 2 * line_height) fg_color vga1_8x16,
                         Text ('' Z: '' @ fmt_f w 6 2 (float_of_real az)) 5 (y_offset + 3 * line_height) fg_color vga1_8x16,
                         Text ''Gyro (deg/s):'' x2 y_offset highlight_color vga1_8x16,
                         Text (''X:'' @ fmt_f w 6 1 (float_of_real gx)) x2 (y_offset + line_height) fg_color vga1_8x16,
                         Text (''Y:'' @ fmt_f w 6 1 (float_of_real gy)) x2 (y_offset + 2 * line_height) fg_color vga1_8x16,
                         Text (''Z:'' @ fmt_f w 6 1 (float_of_real gz)) x2 (y_offset + 3 * line_height) fg_color vga1_8x16,
                         Text (''Pitch: '' @ fmt_f w 6 1 pitch @ '' deg'') 5 y highlight_color vga1_8x16,
                         Text (''Roll:  '' @ fmt_f w 6 1 roll @ '' deg'') 5 (y + line_height)
                           highlight_color vga1_8x16,
                         Show, SleepMs 100]))))
            | (None, mpu', ev_read) \<Rightarrow>
                (case draw status_bar (bar_env t) of (status_bar', ev_bar) \<Rightarrow>
                   (Some (status_bar', mpu'),
                    GetNewKeys # ev_read @ [clear] @ ev_bar @
                    [Text ''Read error!'' 5 y_offset highlight_color vga1_8x16,
                     Show, SleepMs 100]))))"

fun polling_loop :: "world \<Rightarrow> StatusBar \<Rightarrow> MPUReader \<Rightarrow> int \<Rightarrow> tick list \<Rightarrow> event list" where
  "polling_loop w status_bar mpu y_offset [] = []"
| "polling_loop w status_bar mpu y_offset (t # ts) =
     (case poll_iteration w status_bar mpu y_offset t of
        (None, ev) \<Rightarrow> ev
      | (Some (status_bar', mpu'), ev) \<Rightarrow> ev @ polling_loop w status_bar' mpu' y_offset ts)"

text \<open>The screen of the error branch, lines 180 to 185; slicing \<open>None\<close> is a \<open>TypeError\<close>.\<close>

definition error_screen :: "world \<Rightarrow> StatusBar \<Rightarrow> string option \<Rightarrow> event list \<times> bool" where
  "error_screen w status_bar error =
     (case draw status_bar (env_error w) of (status_bar', ev_bar) \<Rightarrow>
        (case error of
           None \<Rightarrow>
             ([Fill (palette w 2)] @ ev_bar @
              [Text ''IMU Error:'' 5 20 (palette w 10) vga1_8x16, Uncaught ''TypeError''], False)
         | Some e \<Rightarrow>
             ([Fill (palette w 2)] @ ev_bar @
              [Text ''IMU Error:'' 5 20 (palette w 10) vga1_8x16,
               Text (take MAX_ERROR_CHARS e) 5 40 (palette w 0) vga1_8x16,
               Text ''Press G0 to exit'' 5 100 (palette w 0) vga1_8x16,
               Show], True)))"

text \<open>
  \<open>main\<close>, over the iterations the observer sees.  Both loops are \<open>while True\<close>: they
  end at \<open>reset()\<close> only, and the trace of a list of iterations is the trace up to there or
  up to the last observed iteration.
\<close>

definition main :: "world \<Rightarrow> tick list \<Rightarrow> event list" where
  "main w ticks =
     (let status_bar = StatusBar_init 16 False (battlevel_ok w) (icon_ok w)
      in case draw status_bar (env_init w) of (status_bar1, ev_bar) \<Rightarrow>
        (let startup = [Fill (palette w 2)] @ ev_bar @
                       [Text ''Initializing IMU...'' 5 20 (palette w 0) vga1_8x16, Show]
         in case try_init_imu (i2c_open w) of
              ((None, error), ev_init) \<Rightarrow>
                (case error_screen w status_bar1 error of
                   (ev_err, True) \<Rightarrow> startup @ ev_init @ ev_err @ unavailable_loop (map keys ticks)
                 | (ev_err, False) \<Rightarrow> startup @ ev_init @ ev_err)
            | ((Some mpu, error), ev_init) \<Rightarrow>
                startup @ ev_init @ polling_loop w status_bar1 mpu (height status_bar1 + 4) ticks))"

section \<open>Properties of the register codec\<close>

lemma byte_range: "0 \<le> uint (b::byte) \<and> uint b < 256"
  using uint_lt2p [of b] by simp

lemma shift_or_bytes: "(push_bit 8 (uint (h::byte))) OR uint (l::byte) = uint h * 256 + uint l"
proof -
  have low: "take_bit 8 (uint l) = uint l"
    by (rule take_bit_int_eq_self) (use byte_range [of l] in simp_all)
  then have "push_bit 8 (uint h) OR uint l = concat_bit 8 (uint l) (uint h)"
    by (simp add: concat_bit_def or.commute)
  also have "\<dots> = uint l + push_bit 8 (uint h)"
    using low by (simp add: concat_bit_eq)
  finally show ?thesis by (simp add: push_bit_eq_mult)
qed

lemma uint_word_cat_bytes: "uint (word_cat (h::byte) (l::byte) :: 16 word) = uint h * 256 + uint l"
proof -
  have low: "take_bit 8 (uint l) = uint l"
    by (rule take_bit_int_eq_self) (use byte_range [of l] in simp_all)
  have "concat_bit 8 (uint l) (uint h) = uint h * 256 + uint l"
    using low by (simp add: concat_bit_eq push_bit_eq_mult)
  moreover have "(uint h * 256 + uint l) mod 65536 = uint h * 256 + uint l"
    using byte_range [of h] byte_range [of l] by simp
  ultimately show ?thesis
    unfolding word_cat_eq' uint_word_of_int by simp
qed

lemma sint16_cases: "sint (w :: 16 word) = (if uint w \<ge> 0x8000 then uint w - 0x10000 else uint w)"
proof -
  have r: "0 \<le> uint w \<and> uint w < 65536" using uint_lt2p [of w] by simp
  have "sint w = take_bit 16 (uint w + 32768) - 32768"
    by (simp add: sint_uint signed_take_bit_eq_take_bit_shift)
  also have "\<dots> = (uint w + 32768) mod 65536 - 32768"
    by (simp add: take_bit_eq_mod)
  also have "\<dots> = (if uint w \<ge> 0x8000 then uint w - 0x10000 else uint w)"
  proof (cases "uint w \<ge> 0x8000")
    case True
    then have "(uint w + 32768) mod 65536 = uint w + 32768 - 65536"
      using r by (simp add: mod_pos_geq)
    then show ?thesis using True by simp
  next
    case False
    then show ?thesis using r by simp
  qed
  finally show ?thesis .
qed

lemma bytes_to_int16_formula:
  "bytes_to_int16 (uint (h::byte)) (uint (l::byte)) =
     (if uint h * 256 + uint l \<ge> 0x8000 then uint h * 256 + uint l - 0x10000
      else uint h * 256 + uint l)"
  by (simp add: bytes_to_int16_def shift_or_bytes Let_def)

lemma bytes_to_int16_sint:
  "bytes_to_int16 (uint (h::byte)) (uint (l::byte)) = sint (word_cat h l :: 16 word)"
  by (simp add: bytes_to_int16_formula sint16_cases uint_word_cat_bytes)

lemma pair_at_in_range:
  "i + 1 < length buf \<Longrightarrow>
     pair_at buf i = Some (sint (word_cat (buf ! i) (buf ! (i + 1)) :: 16 word))"
  by (simp add: pair_at_def byte_at_def bytes_to_int16_sint)

lemma decode_buffer_14:
  assumes "length buf = 14"
  shows "decode_buffer buf =
     Some (sint (word_cat (buf ! 0) (buf ! 1) :: 16 word),
           sint (word_cat (buf ! 2) (buf ! 3) :: 16 word),
           sint (word_cat (buf ! 4) (buf ! 5) :: 16 word),
           sint (word_cat (buf ! 8) (buf ! 9) :: 16 word),
           sint (word_cat (buf ! 10) (buf ! 11) :: 16 word),
           sint (word_cat (buf ! 12) (buf ! 13) :: 16 word))"
proof -
  have p: "\<And>i. i + 1 < 14 \<Longrightarrow>
      pair_at buf i = Some (sint (word_cat (buf ! i) (buf ! (i + 1)) :: 16 word))"
    using assms pair_at_in_range [of _ buf] by simp
  show ?thesis
    unfolding decode_buffer_def
    using p [of 0] p [of 2] p [of 4] p [of 8] p [of 10] p [of 12] by simp
qed

text \<open>
  Claim C1.  The register codec is total over every 14-byte block: it returns a sample,
  whose accelerometer X/Y/Z values come from the byte pairs at 0-1, 2-3, 4-5 and whose
  gyroscope X/Y/Z values come from the pairs at 8-9, 10-11, 12-13 (bytes 6 and 7 are not
  read).  A pair (high, low) decodes to \<open>high * 256 + low\<close>, less 0x10000 when that is
  at least 0x8000, which is the two's-complement reading of the 16 bits.  The four
  boundary pairs decode to 32767, -32768, -1 and 0.
\<close>

theorem register_codec_total:
  "length buf = 14 \<Longrightarrow>
     decode_buffer buf =
       Some (sint (word_cat (buf ! 0) (buf ! 1) :: 16 word),
             sint (word_cat (buf ! 2) (buf ! 3) :: 16 word),
             sint (word_cat (buf ! 4) (buf ! 5) :: 16 word),
             sint (word_cat (buf ! 8) (buf ! 9) :: 16 word),
             sint (word_cat (buf ! 10) (buf ! 11) :: 16 word),
             sint (word_cat (buf ! 12) (buf ! 13) :: 16 word)) \<and>
     bytes_to_int16 (uint (h::byte)) (uint (l::byte)) =
       (if uint h * 256 + uint l \<ge> 0x8000 then uint h * 256 + uint l - 0x10000
        else uint h * 256 + uint l) \<and>
     bytes_to_int16 (uint h) (uint l) = sint (word_cat h l :: 16 word) \<and>
     bytes_to_int16 0x7F 0xFF = 32767 \<and>
     bytes_to_int16 0x80 0x00 = - 32768 \<and>
     bytes_to_int16 0xFF 0xFF = - 1 \<and>
     bytes_to_int16 0x00 0x00 = 0"
proof -
  assume len: "length buf = 14"
  have b: "bytes_to_int16 0x7F 0xFF = 32767" "bytes_to_int16 0x80 0x00 = - 32768"
    "bytes_to_int16 0xFF 0xFF = - 1" "bytes_to_int16 0x00 0x00 = 0"
    by (simp_all add: bytes_to_int16_def)
  show ?thesis
    using decode_buffer_14 [OF len] bytes_to_int16_formula [of h l] bytes_to_int16_sint [of h l] b
    by simp
qed

theorem register_codec_total_witness:
  "length [0x7F, 0xFF, 0x80, 0x00, 0xFF, 0xFF, 0x12, 0x34, 0x00, 0x00, 0x00, 0x01, 0x01, 0x00 :: byte] = 14 \<and>
   decode_buffer [0x7F, 0xFF, 0x80, 0x00, 0xFF, 0xFF, 0x12, 0x34, 0x00, 0x00, 0x00, 0x01, 0x01, 0x00]
     = Some (32767, - 32768, - 1, 0, 1, 256)"
proof -
  let ?c = "[0x7F, 0xFF, 0x80, 0x00, 0xFF, 0xFF, 0x12, 0x34, 0x00, 0x00, 0x00, 0x01, 0x01, 0x00 :: byte]"
  have len: "length ?c = 14" by simp
  have "decode_buffer ?c =
       Some (sint (word_cat (?c ! 0) (?c ! 1) :: 16 word),
             sint (word_cat (?c ! 2) (?c ! 3) :: 16 word),
             sint (word_cat (?c ! 4) (?c ! 5) :: 16 word),
             sint (word_cat (?c ! 8) (?c ! 9) :: 16 word),
             sint (word_cat (?c ! 10) (?c ! 11) :: 16 word),
             sint (word_cat (?c ! 12) (?c ! 13) :: 16 word))"
    using register_codec_total [OF len, of 0 0] by (rule conjunct1)
  then show ?thesis by (simp add: word_cat_eq)
qed

section \<open>Properties of the scaled reader\<close>

text \<open>
  Claim C2.  For every successfully read raw sample, each of the six values of the scaled
  reader is the signed raw value divided by the scale constant of its axis: 16384 for the
  three accelerometer axes, 131 for the three gyroscope axes, negative raw values included.
\<close>

theorem scaled_reader_divides:
  "fst (read_raw_data self rd) = Some (accel_x, accel_y, accel_z, gyro_x, gyro_y, gyro_z) \<Longrightarrow>
     fst (read_scaled_data self rd) =
       Some (real_of_int accel_x / 16384, real_of_int accel_y / 16384, real_of_int accel_z / 16384,
             real_of_int gyro_x / 131, real_of_int gyro_y / 131, real_of_int gyro_z / 131)"
  by (cases "read_raw_data self rd")
     (auto simp: read_scaled_data_def ACCEL_SCALE_def GYRO_SCALE_def)

theorem scaled_reader_divides_witness:
  "fst (read_raw_data \<lparr>address = 0x68, buffer = replicate 14 0\<rparr>
          (Some [0xC0, 0x00, 0x40, 0x00, 0x00, 0x00, 0x00, 0x00, 0xFF, 0x7D, 0x00, 0x83, 0x00, 0x00]))
     = Some (- 16384, 16384, 0, - 131, 131, 0) \<and>
   fst (read_scaled_data \<lparr>address = 0x68, buffer = replicate 14 0\<rparr>
          (Some [0xC0, 0x00, 0x40, 0x00, 0x00, 0x00, 0x00, 0x00, 0xFF, 0x7D, 0x00, 0x83, 0x00, 0x00]))
     = Some (- 1, 1, 0, - 1, 1, 0)"
proof -
  let ?m = "\<lparr>address = 0x68, buffer = replicate 14 0\<rparr>"
  let ?rd = "Some [0xC0, 0x00, 0x40, 0x00, 0x00, 0x00, 0x00, 0x00, 0xFF, 0x7D, 0x00, 0x83, 0x00, 0x00 :: byte]"
  have raw: "fst (read_raw_data ?m ?rd) = Some (- 16384, 16384, 0, - 131, 131, 0)"
    by (simp add: read_raw_data_def decode_buffer_def pair_at_def byte_at_def bytes_to_int16_def)
  from scaled_reader_divides [OF raw] raw show ?thesis by simp
qed

section \<open>Properties of the orientation estimator\<close>







section \<open>Properties of device discovery\<close>

lemma try_addresses_mpu:
  "try_addresses i2c devices MPU_ADDRESSES =
     (if 0x68 \<in> set devices \<and> wake_result i2c 0x68 = None then
        (Some \<lparr>address = 0x68, buffer = replicate 14 0\<rparr>,
         [WriteToMem 0x68 0x6B [0], SleepMs 100])
      else if 0x69 \<in> set devices \<and> wake_result i2c 0x69 = None then
        (Some \<lparr>address = 0x69, buffer = replicate 14 0\<rparr>,
         (if 0x68 \<in> set devices then [WriteToMem 0x68 0x6B [0]] else []) @
         [WriteToMem 0x69 0x6B [0], SleepMs 100])
      else
        (None,
         (if 0x68 \<in> set devices then [WriteToMem 0x68 0x6B [0]] else []) @
         (if 0x69 \<in> set devices then [WriteToMem 0x69 0x6B [0]] else [])))"
  by (auto simp: MPU_ADDRESSES_def MPUReader_init_def MPU_PWR_MGMT_1_def split: option.splits)

lemma try_init_imu_pair:
  "(\<exists>mpu. fst (try_init_imu opened) = (Some mpu, None)) \<or>
   (\<exists>e. e \<noteq> [] \<and> fst (try_init_imu opened) = (None, Some e))"
proof (cases opened)
  case (Inl e)
  then show ?thesis by (simp add: try_init_imu_def)
next
  case (Inr bus)
  show ?thesis
  proof (cases "scan_result bus")
    case (Inl e)
    with Inr show ?thesis by (simp add: try_init_imu_def)
  next
    case (Inr ds)
    with \<open>opened = Inr bus\<close> show ?thesis
      by (simp add: try_init_imu_def try_addresses_mpu)
  qed
qed

lemma try_init_imu_error:
  "fst (fst (try_init_imu opened)) = None \<Longrightarrow> \<exists>e. snd (fst (try_init_imu opened)) = Some e"
  using try_init_imu_pair [of opened] by auto

lemma try_init_imu_no_read: "ev \<in> set (snd (try_init_imu opened)) \<Longrightarrow> \<not> is_bus_read ev"
proof (cases opened)
  case (Inl e)
  assume "ev \<in> set (snd (try_init_imu opened))"
  with Inl show ?thesis by (auto simp: try_init_imu_def)
next
  case (Inr bus)
  assume a: "ev \<in> set (snd (try_init_imu opened))"
  show ?thesis
  proof (cases "scan_result bus")
    case (Inl e)
    with Inr a show ?thesis by (auto simp: try_init_imu_def)
  next
    case (Inr ds)
    with \<open>opened = Inr bus\<close> a show ?thesis
      by (auto simp: try_init_imu_def try_addresses_mpu split: if_splits)
  qed
qed

text \<open>
  Claim C4.  On an opened bus whose scan returns the list \<open>devices\<close>: an empty list
  gives the failure "No I2C devices found"; the candidates 0x68 and 0x69 are tried in this
  order, a candidate is tried only when it is among the devices, and the first one whose
  wake-up write is accepted gives the handle bound to it, later candidates not being
  written to; a list that is not empty and holds neither candidate gives the failure
  "No MPU found. Devices: ..." with every scanned address, in scan order.
\<close>

theorem discovery_outcomes:
  "scan_result i2c = Inr devices \<Longrightarrow>
   (devices = [] \<longrightarrow>
      try_init_imu (Inr i2c) = ((None, Some ''No I2C devices found''), [I2CInit, I2CScan])) \<and>
   (0x68 \<in> set devices \<and> wake_result i2c 0x68 = None \<longrightarrow>
      try_init_imu (Inr i2c) =
        ((Some \<lparr>address = 0x68, buffer = replicate 14 0\<rparr>, None),
         [I2CInit, I2CScan, WriteToMem 0x68 0x6B [0], SleepMs 100])) \<and>
   (\<not> (0x68 \<in> set devices \<and> wake_result i2c 0x68 = None) \<and>
    0x69 \<in> set devices \<and> wake_result i2c 0x69 = None \<longrightarrow>
      try_init_imu (Inr i2c) =
        ((Some \<lparr>address = 0x69, buffer = replicate 14 0\<rparr>, None),
         [I2CInit, I2CScan] @ (if 0x68 \<in> set devices then [WriteToMem 0x68 0x6B [0]] else []) @
         [WriteToMem 0x69 0x6B [0], SleepMs 100])) \<and>
   (devices \<noteq> [] \<and> 0x68 \<notin> set devices \<and> 0x69 \<notin> set devices \<longrightarrow>
      try_init_imu (Inr i2c) =
        ((None, Some (''No MPU found. Devices: '' @
                      join '', '' (map (\<lambda>d. ''0x'' @ fmt_02X d) devices))),
         [I2CInit, I2CScan]))"
  by (auto simp: try_init_imu_def try_addresses_mpu device_list_def)

theorem discovery_outcomes_witness:
  "try_init_imu (Inr \<lparr>scan_result = Inr [], wake_result = (\<lambda>a. None)\<rparr>) =
     ((None, Some ''No I2C devices found''), [I2CInit, I2CScan]) \<and>
   try_init_imu (Inr \<lparr>scan_result = Inr [0x69], wake_result = (\<lambda>a. None)\<rparr>) =
     ((Some \<lparr>address = 0x69, buffer = replicate 14 0\<rparr>, None),
      [I2CInit, I2CScan, WriteToMem 0x69 0x6B [0], SleepMs 100]) \<and>
   try_init_imu (Inr \<lparr>scan_result = Inr [0x69, 0x3C, 0x68], wake_result = (\<lambda>a. None)\<rparr>) =
     ((Some \<lparr>address = 0x68, buffer = replicate 14 0\<rparr>, None),
      [I2CInit, I2CScan, WriteToMem 0x68 0x6B [0], SleepMs 100]) \<and>
   try_init_imu (Inr \<lparr>scan_result = Inr [0x10], wake_result = (\<lambda>a. None)\<rparr>) =
     ((None, Some ''No MPU found. Devices: 0x10''), [I2CInit, I2CScan])"
proof -
  let ?ok = "\<lambda>a::nat. None :: string option"
  have a: "try_init_imu (Inr \<lparr>scan_result = Inr [], wake_result = ?ok\<rparr>) =
     ((None, Some ''No I2C devices found''), [I2CInit, I2CScan])"
    using discovery_outcomes [of "\<lparr>scan_result = Inr [], wake_result = ?ok\<rparr>" "[]"] by simp
  have b: "try_init_imu (Inr \<lparr>scan_result = Inr [0x69], wake_result = ?ok\<rparr>) =
     ((Some \<lparr>address = 0x69, buffer = replicate 14 0\<rparr>, None),
      [I2CInit, I2CScan, WriteToMem 0x69 0x6B [0], SleepMs 100])"
    using discovery_outcomes [of "\<lparr>scan_result = Inr [0x69], wake_result = ?ok\<rparr>" "[0x69]"] by simp
  have c: "try_init_imu (Inr \<lparr>scan_result = Inr [0x69, 0x3C, 0x68], wake_result = ?ok\<rparr>) =
     ((Some \<lparr>address = 0x68, buffer = replicate 14 0\<rparr>, None),
      [I2CInit, I2CScan, WriteToMem 0x68 0x6B [0], SleepMs 100])"
    using discovery_outcomes [of "\<lparr>scan_result = Inr [0x69, 0x3C, 0x68], wake_result = ?ok\<rparr>" "[0x69, 0x3C, 0x68]"] by simp
  have h: "fmt_02X 0x10 = ''10''" by code_simp
  have d: "try_init_imu (Inr \<lparr>scan_result = Inr [0x10], wake_result = ?ok\<rparr>) =
     ((None, Some ''No MPU found. Devices: 0x10''), [I2CInit, I2CScan])"
    using discovery_outcomes [of "\<lparr>scan_result = Inr [0x10], wake_result = ?ok\<rparr>" "[0x10]"] h by simp
  from a b c d show ?thesis by blast
qed

text \<open>
  Claim C10.  Discovery returns either a handle with no error, or no handle with an error
  string that is not empty, never both and never neither.  When supported addresses are
  among the devices and the wake-up write fails at each of them, the result is the same
  "No MPU found. Devices: ..." message with the scanned addresses.
\<close>

theorem discovery_exactly_one:
  "((\<exists>mpu. fst (try_init_imu opened) = (Some mpu, None)) \<or>
    (\<exists>e. e \<noteq> [] \<and> fst (try_init_imu opened) = (None, Some e))) \<and>
   (scan_result i2c = Inr devices \<and> (0x68 \<in> set devices \<or> 0x69 \<in> set devices) \<and>
    (\<forall>a \<in> set MPU_ADDRESSES \<inter> set devices. wake_result i2c a \<noteq> None) \<longrightarrow>
      fst (try_init_imu (Inr i2c)) =
        (None, Some (''No MPU found. Devices: '' @
                     join '', '' (map (\<lambda>d. ''0x'' @ fmt_02X d) devices))))"
proof -
  have one: "(\<exists>mpu. fst (try_init_imu opened) = (Some mpu, None)) \<or>
    (\<exists>e. e \<noteq> [] \<and> fst (try_init_imu opened) = (None, Some e))"
    by (rule try_init_imu_pair)
  have two: "scan_result i2c = Inr devices \<and> (0x68 \<in> set devices \<or> 0x69 \<in> set devices) \<and>
    (\<forall>a \<in> set MPU_ADDRESSES \<inter> set devices. wake_result i2c a \<noteq> None) \<longrightarrow>
      fst (try_init_imu (Inr i2c)) =
        (None, Some (''No MPU found. Devices: '' @
                     join '', '' (map (\<lambda>d. ''0x'' @ fmt_02X d) devices)))"
  proof (intro impI, elim conjE)
    assume s: "scan_result i2c = Inr devices"
      and m: "0x68 \<in> set devices \<or> 0x69 \<in> set devices"
      and f: "\<forall>a \<in> set MPU_ADDRESSES \<inter> set devices. wake_result i2c a \<noteq> None"
    from f have f68: "0x68 \<in> set devices \<Longrightarrow> wake_result i2c 0x68 \<noteq> None"
      and f69: "0x69 \<in> set devices \<Longrightarrow> wake_result i2c 0x69 \<noteq> None"
      by (simp_all add: MPU_ADDRESSES_def)
    from m have ne: "devices \<noteq> []" by auto
    show "fst (try_init_imu (Inr i2c)) =
        (None, Some (''No MPU found. Devices: '' @
                     join '', '' (map (\<lambda>d. ''0x'' @ fmt_02X d) devices)))"
      using s ne f68 f69 by (auto simp: try_init_imu_def try_addresses_mpu device_list_def)
  qed
  from one two show ?thesis by blast
qed

theorem discovery_exactly_one_witness:
  "fst (try_init_imu (Inr \<lparr>scan_result = Inr [0x68, 0x69, 0x3C],
                            wake_result = (\<lambda>a. Some ''[Errno 19] ENODEV'')\<rparr>)) =
     (None, Some ''No MPU found. Devices: 0x68, 0x69, 0x3C'')"
proof -
  let ?bus = "\<lparr>scan_result = Inr [0x68, 0x69, 0x3C],
               wake_result = (\<lambda>a::nat. Some ''[Errno 19] ENODEV'')\<rparr>"
  have l: "join '', '' (map (\<lambda>d. ''0x'' @ fmt_02X d) [0x68, 0x69, 0x3C]) = ''0x68, 0x69, 0x3C''"
    by code_simp
  have "fst (try_init_imu (Inr ?bus)) =
        (None, Some (''No MPU found. Devices: '' @
                     join '', '' (map (\<lambda>d. ''0x'' @ fmt_02X d) [0x68, 0x69, 0x3C])))"
    using discovery_exactly_one [of "Inr ?bus" ?bus "[0x68, 0x69, 0x3C]"] by simp
  then show ?thesis by (simp only: l) simp
qed

section \<open>Properties of the status bar's cache\<close>

lemma time_str_nonempty: "time_str self env \<noteq> []"
  by (simp add: time_str_def Let_def split: option.splits prod.splits)

lemma draw_time_unchanged:
  "time_str self env = last_time_str self \<Longrightarrow> draw_time self env = (self, [])"
  by (simp add: draw_time_def Let_def split: prod.splits)

lemma draw_time_changed:
  "time_str self env \<noteq> last_time_str self \<Longrightarrow>
     draw_time self env =
       (self\<lparr>last_time_str := time_str self env\<rparr>,
        [FillRect 0 0 60 (height self) (fst (bar_colors env)),
         if have_vga1_8x16 env then Text (time_str self env) 2 0 (snd (bar_colors env)) vga1_8x16
         else Text (time_str self env) 2 2 (snd (bar_colors env)) default_font])"
  by (simp add: draw_time_def Let_def split: prod.splits)

lemma draw_battery_unchanged:
  "batt_level self env = last_batt_level self \<Longrightarrow> draw_battery self env = (self, [])"
  by (simp add: draw_battery_def Let_def split: prod.splits)

lemma draw_battery_changed:
  "batt_level self env \<noteq> last_batt_level self \<Longrightarrow>
     fst (draw_battery self env) = self\<lparr>last_batt_level := batt_level self env\<rparr> \<and>
     hd (snd (draw_battery self env)) =
       FillRect (tft_width env - 30) 0 30 (height self) (fst (bar_colors env)) \<and>
     snd (draw_battery self env) \<noteq> []"
  by (simp add: draw_battery_def Let_def split: prod.splits)

lemma draw_battery_changed_events:
  "batt_level self env \<noteq> last_batt_level self \<Longrightarrow>
     draw_battery self env =
       (self\<lparr>last_batt_level := batt_level self env\<rparr>,
        FillRect (tft_width env - 30) 0 30 (height self) (fst (bar_colors env)) #
        (if batt_level self env \<ge> 0 \<and> battery_icon self then
           (if bitmap_raises env
            then [Text (fmt_d (batt_level self env) @ ''%'') (tft_width env - 30 + 2) 2
                    (snd (bar_colors env)) default_font]
            else [Bitmap (tft_width env - 20) 2 (fst (bar_colors env)) (snd (bar_colors env))
                    (batt_level self env)])
         else if batt_level self env \<ge> 0 then
           (if have_vga1_8x8 env
            then [Text (fmt_d (batt_level self env) @ ''%'') (tft_width env - 30 + 2) 4
                    (snd (bar_colors env)) vga1_8x8]
            else [Text (fmt_d (batt_level self env) @ ''%'') (tft_width env - 30 + 2) 2
                    (snd (bar_colors env)) default_font])
         else []))"
  by (simp add: draw_battery_def Let_def split: prod.splits)

lemma draw_time_keeps_battery:
  "last_batt_level (fst (draw_time self env)) = last_batt_level self \<and>
   battery (fst (draw_time self env)) = battery self \<and>
   battery_icon (fst (draw_time self env)) = battery_icon self \<and>
   height (fst (draw_time self env)) = height self"
  by (simp add: draw_time_def Let_def split: prod.splits)

lemma draw_battery_keeps_time:
  "last_time_str (fst (draw_battery self env)) = last_time_str self \<and>
   use_12h (fst (draw_battery self env)) = use_12h self"
  by (simp add: draw_battery_def Let_def split: prod.splits)

lemma batt_level_after_time:
  "batt_level (fst (draw_time self env)) env = batt_level self env"
  by (simp add: batt_level_def draw_time_keeps_battery)

lemma draw_battery_after_time:
  "snd (draw_battery (fst (draw_time self env)) env) = snd (draw_battery self env)"
  by (simp add: draw_battery_def draw_time_def batt_level_def Let_def split: prod.splits)

lemma draw_split:
  "snd (draw self env) = snd (draw_time self env) @ snd (draw_battery self env)"
proof -
  obtain s1 e1 where t: "draw_time self env = (s1, e1)" by (cases "draw_time self env")
  obtain s2 e2 where b: "draw_battery s1 env = (s2, e2)" by (cases "draw_battery s1 env")
  have "snd (draw_battery self env) = e2"
    using draw_battery_after_time [of self env] t b by simp
  then show ?thesis using t b by (simp add: draw_def)
qed

lemma draw_time_caches: "last_time_str (fst (draw_time self e)) = time_str self e"
  by (cases "time_str self e = last_time_str self")
     (simp_all add: draw_time_unchanged draw_time_changed)

lemma draw_battery_caches: "last_batt_level (fst (draw_battery self e)) = batt_level self e"
  by (cases "batt_level self e = last_batt_level self")
     (simp_all add: draw_battery_unchanged draw_battery_changed)

lemma fmt_02d_9: "fmt_02d 9 = ''09''"
  by code_simp

lemma fmt_02d_5: "fmt_02d 5 = ''05''"
  by code_simp

text \<open>
  Claim C5, as the code has it.  On a freshly built status bar the first draw always
  draws the time region, since no candidate time string is empty.  It draws the battery
  region exactly when the candidate level is not -1; the candidate is -1, the initial
  cached value, when there is no battery object or when reading the level raises, and
  then the battery region is neither cleared nor drawn.
\<close>

theorem first_draw_regions:
  "snd (draw_time (StatusBar_init h u b i) e) =
     [FillRect 0 0 60 h (fst (bar_colors e)),
      if have_vga1_8x16 e
      then Text (time_str (StatusBar_init h u b i) e) 2 0 (snd (bar_colors e)) vga1_8x16
      else Text (time_str (StatusBar_init h u b i) e) 2 2 (snd (bar_colors e)) default_font] \<and>
   time_str (StatusBar_init h u b i) e \<noteq> [] \<and>
   (snd (draw_battery (StatusBar_init h u b i) e) = []) =
     (batt_level (StatusBar_init h u b i) e = - 1) \<and>
   batt_level (StatusBar_init h u b i) e =
     (if b then (case read_level e of Some v \<Rightarrow> v | None \<Rightarrow> - 1) else - 1) \<and>
   snd (draw (StatusBar_init h u b i) e) =
     snd (draw_time (StatusBar_init h u b i) e) @ snd (draw_battery (StatusBar_init h u b i) e)"
proof -
  let ?s = "StatusBar_init h u b i"
  have c: "last_time_str ?s = []" "last_batt_level ?s = - 1" "height ?s = h" "battery ?s = b"
    by (simp_all add: StatusBar_init_def)
  have t: "time_str ?s e \<noteq> last_time_str ?s"
    using time_str_nonempty [of ?s e] c by simp
  have 1: "snd (draw_time ?s e) =
     [FillRect 0 0 60 h (fst (bar_colors e)),
      if have_vga1_8x16 e then Text (time_str ?s e) 2 0 (snd (bar_colors e)) vga1_8x16
      else Text (time_str ?s e) 2 2 (snd (bar_colors e)) default_font]"
    using draw_time_changed [OF t] c by simp
  have 3: "(snd (draw_battery ?s e) = []) = (batt_level ?s e = - 1)"
  proof (cases "batt_level ?s e = - 1")
    case True
    then show ?thesis using draw_battery_unchanged [of ?s e] c by simp
  next
    case False
    then show ?thesis using draw_battery_changed [of ?s e] c by simp
  qed
  have 4: "batt_level ?s e = (if b then (case read_level e of Some v \<Rightarrow> v | None \<Rightarrow> - 1) else - 1)"
    using c by (simp add: batt_level_def)
  show ?thesis using 1 time_str_nonempty [of ?s e] 3 4 draw_split [of ?s e] by blast
qed

theorem first_draw_regions_witness:
  "snd (draw (StatusBar_init 16 False True False)
          \<lparr>config = None, localtime = Some (9, 5), have_vga1_8x16 = True, have_vga1_8x8 = True,
           read_level = Some 3, bitmap_raises = False, tft_width = 240\<rparr>) =
     [FillRect 0 0 60 16 0, Text ''09:05'' 2 0 65535 vga1_8x16,
      FillRect 210 0 30 16 0, Text ''3%'' 212 4 65535 vga1_8x8]"
proof -
  let ?s = "StatusBar_init 16 False True False"
  let ?e = "\<lparr>config = None, localtime = Some (9, 5), have_vga1_8x16 = True, have_vga1_8x8 = True,
           read_level = Some 3, bitmap_raises = False, tft_width = 240\<rparr>"
  have d3: "fmt_d 3 = ''3''" by code_simp
  have t: "time_str ?s ?e = ''09:05''"
    by (simp add: time_str_def StatusBar_init_def fmt_02d_9 fmt_02d_5)
  have b: "snd (draw_battery ?s ?e) = [FillRect 210 0 30 16 0, Text ''3%'' 212 4 65535 vga1_8x8]"
    by (simp add: draw_battery_def batt_level_def StatusBar_init_def bar_colors_def d3 Let_def)
  have "snd (draw ?s ?e) = snd (draw_time ?s ?e) @ snd (draw_battery ?s ?e)"
    and "snd (draw_time ?s ?e) =
     [FillRect 0 0 60 16 (fst (bar_colors ?e)),
      if have_vga1_8x16 ?e then Text (time_str ?s ?e) 2 0 (snd (bar_colors ?e)) vga1_8x16
      else Text (time_str ?s ?e) 2 2 (snd (bar_colors ?e)) default_font]"
    using first_draw_regions [of 16 False True False ?e] by blast+
  then show ?thesis using t b by (simp add: bar_colors_def)
qed

text \<open>
  The claim as stated fails: a status bar built without a battery module issues, at its
  first draw, the two events of the time region and none for the battery region.
\<close>

theorem first_draw_skips_battery_counterexample:
  "snd (draw (StatusBar_init 16 False False False)
          \<lparr>config = None, localtime = Some (9, 5), have_vga1_8x16 = True, have_vga1_8x8 = True,
           read_level = None, bitmap_raises = False, tft_width = 240\<rparr>) =
     [FillRect 0 0 60 16 0, Text ''09:05'' 2 0 65535 vga1_8x16] \<and>
   snd (draw_battery (StatusBar_init 16 False False False)
          \<lparr>config = None, localtime = Some (9, 5), have_vga1_8x16 = True, have_vga1_8x8 = True,
           read_level = None, bitmap_raises = False, tft_width = 240\<rparr>) = []"
  by (simp add: draw_def draw_time_def draw_battery_def StatusBar_init_def bar_colors_def
        time_str_def batt_level_def fmt_02d_9 fmt_02d_5 Let_def)

text \<open>
  Claim C6.  In each region, a draw whose candidate equals the cached value issues no
  event and leaves the status bar as it is; a draw whose candidate differs clears the
  region, draws it (the time text; for the battery the icon, or the percentage text when
  there is no icon or the icon cannot be drawn, or nothing below level 0) and stores the
  candidate.  The regions are independent: the time
  region leaves the cached battery level alone, the battery region leaves the cached time
  string alone, and the events of a whole draw are those of the time region followed by
  those the battery region issues on the status bar as it was before.
\<close>

theorem render_cache_regions:
  "(time_str self e = last_time_str self \<longrightarrow> draw_time self e = (self, [])) \<and>
   (time_str self e \<noteq> last_time_str self \<longrightarrow>
      draw_time self e =
        (self\<lparr>last_time_str := time_str self e\<rparr>,
         [FillRect 0 0 60 (height self) (fst (bar_colors e)),
          if have_vga1_8x16 e then Text (time_str self e) 2 0 (snd (bar_colors e)) vga1_8x16
          else Text (time_str self e) 2 2 (snd (bar_colors e)) default_font])) \<and>
   (batt_level self e = last_batt_level self \<longrightarrow> draw_battery self e = (self, [])) \<and>
   (batt_level self e \<noteq> last_batt_level self \<longrightarrow>
      draw_battery self e =
        (self\<lparr>last_batt_level := batt_level self e\<rparr>,
         FillRect (tft_width e - 30) 0 30 (height self) (fst (bar_colors e)) #
         (if batt_level self e \<ge> 0 \<and> battery_icon self then
            (if bitmap_raises e
             then [Text (fmt_d (batt_level self e) @ ''%'') (tft_width e - 30 + 2) 2
                     (snd (bar_colors e)) default_font]
             else [Bitmap (tft_width e - 20) 2 (fst (bar_colors e)) (snd (bar_colors e))
                     (batt_level self e)])
          else if batt_level self e \<ge> 0 then
            (if have_vga1_8x8 e
             then [Text (fmt_d (batt_level self e) @ ''%'') (tft_width e - 30 + 2) 4
                     (snd (bar_colors e)) vga1_8x8]
             else [Text (fmt_d (batt_level self e) @ ''%'') (tft_width e - 30 + 2) 2
                     (snd (bar_colors e)) default_font])
          else []))) \<and>
   last_batt_level (fst (draw_time self e)) = last_batt_level self \<and>
   last_time_str (fst (draw_battery self e)) = last_time_str self \<and>
   snd (draw self e) = snd (draw_time self e) @ snd (draw_battery self e) \<and>
   last_time_str (fst (draw self e)) = time_str self e \<and>
   last_batt_level (fst (draw self e)) = batt_level self e"
proof -
  obtain s1 e1 where t: "draw_time self e = (s1, e1)" by (cases "draw_time self e")
  obtain s2 e2 where b: "draw_battery s1 e = (s2, e2)" by (cases "draw_battery s1 e")
  have d: "fst (draw self e) = s2" using t b by (simp add: draw_def)
  have lt: "last_time_str (fst (draw self e)) = time_str self e"
    using d t b draw_battery_keeps_time [of s1 e] draw_time_caches [of self e] by simp
  have "batt_level s1 e = batt_level self e"
    using batt_level_after_time [of self e] t by simp
  then have lb: "last_batt_level (fst (draw self e)) = batt_level self e"
    using d b draw_battery_caches [of s1 e] by simp
  show ?thesis
    using draw_time_unchanged [of self e] draw_time_changed [of self e]
      draw_battery_unchanged [of self e] draw_battery_changed_events [of self e]
      draw_time_keeps_battery [of self e] draw_battery_keeps_time [of self e]
      draw_split [of self e] lt lb
    by blast
qed

theorem render_cache_regions_witness:
  "draw_time \<lparr>height = 16, use_12h = False, last_time_str = ''09:05'', last_batt_level = 3,
              battery = True, battery_icon = False\<rparr>
     \<lparr>config = None, localtime = Some (9, 5), have_vga1_8x16 = True, have_vga1_8x8 = True,
      read_level = Some 3, bitmap_raises = False, tft_width = 240\<rparr> =
     (\<lparr>height = 16, use_12h = False, last_time_str = ''09:05'', last_batt_level = 3,
       battery = True, battery_icon = False\<rparr>, []) \<and>
   draw_battery \<lparr>height = 16, use_12h = False, last_time_str = ''09:05'', last_batt_level = 3,
              battery = True, battery_icon = False\<rparr>
     \<lparr>config = None, localtime = Some (9, 5), have_vga1_8x16 = True, have_vga1_8x8 = True,
      read_level = Some 3, bitmap_raises = False, tft_width = 240\<rparr> =
     (\<lparr>height = 16, use_12h = False, last_time_str = ''09:05'', last_batt_level = 3,
       battery = True, battery_icon = False\<rparr>, []) \<and>
   draw_time \<lparr>height = 16, use_12h = False, last_time_str = ''09:05'', last_batt_level = 3,
              battery = True, battery_icon = False\<rparr>
     \<lparr>config = None, localtime = Some (9, 6), have_vga1_8x16 = True, have_vga1_8x8 = True,
      read_level = Some 3, bitmap_raises = False, tft_width = 240\<rparr> =
     (\<lparr>height = 16, use_12h = False, last_time_str = ''09:06'', last_batt_level = 3,
       battery = True, battery_icon = False\<rparr>,
      [FillRect 0 0 60 16 0, Text ''09:06'' 2 0 65535 vga1_8x16]) \<and>
   draw_battery \<lparr>height = 16, use_12h = False, last_time_str = ''09:05'', last_batt_level = 3,
              battery = True, battery_icon = False\<rparr>
     \<lparr>config = None, localtime = Some (9, 6), have_vga1_8x16 = True, have_vga1_8x8 = True,
      read_level = Some 2, bitmap_raises = False, tft_width = 240\<rparr> =
     (\<lparr>height = 16, use_12h = False, last_time_str = ''09:05'', last_batt_level = 2,
       battery = True, battery_icon = False\<rparr>,
      [FillRect 210 0 30 16 0, Text ''2%'' 212 4 65535 vga1_8x8]) \<and>
   draw_battery \<lparr>height = 16, use_12h = False, last_time_str = ''09:05'', last_batt_level = 3,
              battery = True, battery_icon = True\<rparr>
     \<lparr>config = None, localtime = Some (9, 6), have_vga1_8x16 = True, have_vga1_8x8 = True,
      read_level = Some 2, bitmap_raises = False, tft_width = 240\<rparr> =
     (\<lparr>height = 16, use_12h = False, last_time_str = ''09:05'', last_batt_level = 2,
       battery = True, battery_icon = True\<rparr>,
      [FillRect 210 0 30 16 0, Bitmap 220 2 0 65535 2])"
proof -
  let ?s = "\<lparr>height = 16, use_12h = False, last_time_str = ''09:05'', last_batt_level = 3,
              battery = True, battery_icon = False\<rparr>"
  let ?e = "\<lparr>config = None, localtime = Some (9, 5), have_vga1_8x16 = True, have_vga1_8x8 = True,
      read_level = Some 3, bitmap_raises = False, tft_width = 240\<rparr>"
  let ?e' = "\<lparr>config = None, localtime = Some (9, 6), have_vga1_8x16 = True, have_vga1_8x8 = True,
      read_level = Some 3, bitmap_raises = False, tft_width = 240\<rparr>"
  let ?e'' = "\<lparr>config = None, localtime = Some (9, 6), have_vga1_8x16 = True, have_vga1_8x8 = True,
      read_level = Some 2, bitmap_raises = False, tft_width = 240\<rparr>"
  have f6: "fmt_02d 6 = ''06''" by code_simp
  have t: "time_str ?s ?e = ''09:05''" "time_str ?s ?e' = ''09:06''"
    by (simp_all add: time_str_def fmt_02d_9 fmt_02d_5 f6)
  let ?si = "\<lparr>height = 16, use_12h = False, last_time_str = ''09:05'', last_batt_level = 3,
              battery = True, battery_icon = True\<rparr>"
  have d2: "fmt_d 2 = ''2''" by code_simp
  have b: "batt_level ?s ?e = 3" "batt_level ?s ?e'' = 2" "batt_level ?si ?e'' = 2"
    by (simp_all add: batt_level_def)
  have 1: "draw_time ?s ?e = (?s, [])"
    using render_cache_regions [of ?s ?e] t by simp
  have 2: "draw_battery ?s ?e = (?s, [])"
    using render_cache_regions [of ?s ?e] b by simp
  have 3: "draw_time ?s ?e' = (?s\<lparr>last_time_str := ''09:06''\<rparr>,
      [FillRect 0 0 60 16 0, Text ''09:06'' 2 0 65535 vga1_8x16])"
    using render_cache_regions [of ?s ?e'] t by (simp add: bar_colors_def)
  have 4: "draw_battery ?s ?e'' = (?s\<lparr>last_batt_level := 2\<rparr>,
      [FillRect 210 0 30 16 0, Text ''2%'' 212 4 65535 vga1_8x8])"
    using render_cache_regions [of ?s ?e''] b d2 by (simp add: bar_colors_def)
  have 5: "draw_battery ?si ?e'' = (?si\<lparr>last_batt_level := 2\<rparr>,
      [FillRect 210 0 30 16 0, Bitmap 220 2 0 65535 2])"
    using render_cache_regions [of ?si ?e''] b by (simp add: bar_colors_def)
  from 1 2 3 4 5 show ?thesis by simp
qed

section \<open>Properties of the live readout's loops\<close>

lemma read_scaled_data_events:
  "snd (snd (read_scaled_data mpu rd)) =
     [ReadFromMemInto (address mpu) MPU_ACCEL_XOUT_H (length (buffer mpu))]"
  by (simp add: read_scaled_data_def read_raw_data_def Let_def split: option.splits prod.splits)

lemma read_scaled_data_raises:
  "read_scaled_data mpu None =
     (None, mpu, [ReadFromMemInto (address mpu) MPU_ACCEL_XOUT_H (length (buffer mpu))])"
  by (simp add: read_scaled_data_def read_raw_data_def)

lemma draw_time_display: "ev \<in> set (snd (draw_time self e)) \<Longrightarrow> is_display ev"
  by (auto simp: draw_time_def Let_def split: prod.splits if_splits)

lemma draw_battery_display: "ev \<in> set (snd (draw_battery self e)) \<Longrightarrow> is_display ev"
  by (auto simp: draw_battery_def Let_def split: prod.splits if_splits)

lemma draw_display: "ev \<in> set (snd (draw self e)) \<Longrightarrow> is_display ev"
  using draw_time_display [of ev self e] draw_battery_display [of ev self e]
  by (auto simp: draw_split)

lemma poll_iteration_exit:
  "''G0'' \<in> set (keys t) \<Longrightarrow> poll_iteration w sb mpu y t = (None, [GetNewKeys, Reset])"
  by (simp add: poll_iteration_def)

lemma poll_iteration_read_error:
  assumes "''G0'' \<notin> set (keys t)" and "fst (read_scaled_data mpu (bus_read t)) = None"
  shows "poll_iteration w sb mpu y t =
     (Some (fst (draw sb (bar_env t)), fst (snd (read_scaled_data mpu (bus_read t)))),
      [GetNewKeys, ReadFromMemInto (address mpu) MPU_ACCEL_XOUT_H (length (buffer mpu)),
       FillRect 0 (height sb) (display_width w) (display_height w - height sb) (palette w 2)] @
      snd (draw sb (bar_env t)) @
      [Text ''Read error!'' 5 y (palette w 10) vga1_8x16, Show, SleepMs 100])"
proof -
  obtain m' ev where r: "read_scaled_data mpu (bus_read t) = (None, m', ev)"
    using assms(2) by (cases "read_scaled_data mpu (bus_read t)") auto
  have ev: "ev = [ReadFromMemInto (address mpu) MPU_ACCEL_XOUT_H (length (buffer mpu))]"
    using read_scaled_data_events [of mpu "bus_read t"] r by simp
  obtain sb' evb where d: "draw sb (bar_env t) = (sb', evb)" by (cases "draw sb (bar_env t)")
  show ?thesis using assms(1) r ev d by (simp add: poll_iteration_def)
qed

lemma poll_iteration_shape:
  "\<exists>rest. snd (poll_iteration w sb mpu y t) = GetNewKeys # rest \<and>
          (\<forall>ev \<in> set rest. ev = Reset \<or> is_bus_read ev \<or> is_display ev \<or> ev = SleepMs 100)"
proof (cases "''G0'' \<in> set (keys t)")
  case True
  then show ?thesis by (simp add: poll_iteration_exit)
next
  case False
  obtain r m' ev where rd: "read_scaled_data mpu (bus_read t) = (r, m', ev)"
    by (cases "read_scaled_data mpu (bus_read t)")
  have ev: "ev = [ReadFromMemInto (address mpu) MPU_ACCEL_XOUT_H (length (buffer mpu))]"
    using read_scaled_data_events [of mpu "bus_read t"] rd by simp
  obtain sb' evb where d: "draw sb (bar_env t) = (sb', evb)" by (cases "draw sb (bar_env t)")
  have disp: "\<forall>e \<in> set evb. is_display e"
    using draw_display [of _ sb "bar_env t"] d by simp
  show ?thesis
  proof (cases r)
    case None
    then show ?thesis using False rd ev d disp by (simp add: poll_iteration_def)
  next
    case (Some smp)
    obtain ax ay az gx gy gz where smp: "smp = (ax, ay, az, gx, gy, gz)"
      by (cases smp) auto
    obtain pitch roll where
      pr: "compute_pitch_roll (float_of_real ax) (float_of_real ay) (float_of_real az) = (pitch, roll)"
      by (cases "compute_pitch_roll (float_of_real ax) (float_of_real ay) (float_of_real az)")
    show ?thesis using False rd ev d disp Some smp pr
      by (simp add: poll_iteration_def Let_def)
  qed
qed

lemma polling_loop_no_uncaught:
  "ev \<in> set (polling_loop w sb mpu y ts) \<Longrightarrow> ev \<noteq> Uncaught s"
proof (induction ts arbitrary: sb mpu)
  case Nil
  then show ?case by simp
next
  case (Cons t ts)
  obtain r evs where it: "poll_iteration w sb mpu y t = (r, evs)"
    by (cases "poll_iteration w sb mpu y t")
  obtain rest where evs: "evs = GetNewKeys # rest"
    and rest: "\<forall>ev \<in> set rest. ev = Reset \<or> is_bus_read ev \<or> is_display ev \<or> ev = SleepMs 100"
    using poll_iteration_shape [of w sb mpu y t] it by auto
  have here: "\<And>x. x \<in> set evs \<Longrightarrow> x \<noteq> Uncaught s"
    using evs rest by auto
  show ?case
  proof (cases r)
    case None
    then show ?thesis using Cons.prems it here by simp
  next
    case (Some p)
    obtain sb' mpu' where p: "p = (sb', mpu')" by (cases p)
    from Cons.prems it Some p
    have "ev \<in> set evs \<or> ev \<in> set (polling_loop w sb' mpu' y ts)" by simp
    then show ?thesis using here Cons.IH [of sb' mpu'] by blast
  qed
qed

lemma unavailable_loop_events:
  "ev \<in> set (unavailable_loop kss) \<Longrightarrow> ev = GetNewKeys \<or> ev = SleepMs 50 \<or> ev = Reset"
  by (induction kss) (auto split: if_splits)

lemma unavailable_loop_runs:
  "\<forall>ks \<in> set kss. ''G0'' \<notin> set ks \<Longrightarrow>
     unavailable_loop kss = concat (map (\<lambda>ks. [GetNewKeys, SleepMs 50]) kss)"
  by (induction kss) auto

lemma error_screen_Some:
  "\<exists>screen. error_screen w sb (Some e) = (screen, True) \<and> (\<forall>ev \<in> set screen. is_display ev)"
proof -
  obtain sb' evb where d: "draw sb (env_error w) = (sb', evb)" by (cases "draw sb (env_error w)")
  have "\<forall>ev \<in> set evb. is_display ev"
    using draw_display [of _ sb "env_error w"] d by simp
  then show ?thesis using d by (simp add: error_screen_def)
qed

text \<open>
  Claim C7.  A failing register read does not stop the polling loop.  When the bus read
  raises, the scaled reader returns \<open>None\<close> and the reader is unchanged; an iteration
  without the exit key then clears the area below the status bar, draws the status bar
  and the text "Read error!", shows the frame, sleeps 100 ms, and the loop goes on with
  the next iteration.  No trace of the polling loop holds an uncaught exception.
\<close>

theorem read_failure_recoverable:
  "read_scaled_data mpu None =
     (None, mpu, [ReadFromMemInto (address mpu) 0x3B (length (buffer mpu))]) \<and>
   (''G0'' \<notin> set (keys t) \<and> bus_read t = None \<longrightarrow>
      poll_iteration w sb mpu y t =
        (Some (fst (draw sb (bar_env t)), mpu),
         [GetNewKeys, ReadFromMemInto (address mpu) 0x3B (length (buffer mpu)),
          FillRect 0 (height sb) (display_width w) (display_height w - height sb) (palette w 2)] @
         snd (draw sb (bar_env t)) @
         [Text ''Read error!'' 5 y (palette w 10) vga1_8x16, Show, SleepMs 100]) \<and>
      polling_loop w sb mpu y (t # ts) =
        snd (poll_iteration w sb mpu y t) @
        polling_loop w (fst (draw sb (bar_env t))) mpu y ts) \<and>
   (\<forall>ev \<in> set (polling_loop w sb mpu y ts). \<forall>s. ev \<noteq> Uncaught s)"
proof -
  have 1: "read_scaled_data mpu None =
     (None, mpu, [ReadFromMemInto (address mpu) 0x3B (length (buffer mpu))])"
    by (simp add: read_scaled_data_raises MPU_ACCEL_XOUT_H_def)
  have 2: "''G0'' \<notin> set (keys t) \<and> bus_read t = None \<longrightarrow>
      poll_iteration w sb mpu y t =
        (Some (fst (draw sb (bar_env t)), mpu),
         [GetNewKeys, ReadFromMemInto (address mpu) 0x3B (length (buffer mpu)),
          FillRect 0 (height sb) (display_width w) (display_height w - height sb) (palette w 2)] @
         snd (draw sb (bar_env t)) @
         [Text ''Read error!'' 5 y (palette w 10) vga1_8x16, Show, SleepMs 100]) \<and>
      polling_loop w sb mpu y (t # ts) =
        snd (poll_iteration w sb mpu y t) @
        polling_loop w (fst (draw sb (bar_env t))) mpu y ts"
  proof (intro impI, elim conjE)
    assume k: "''G0'' \<notin> set (keys t)" and r: "bus_read t = None"
    have f: "fst (read_scaled_data mpu (bus_read t)) = None"
      "fst (snd (read_scaled_data mpu (bus_read t))) = mpu"
      using r by (simp_all add: read_scaled_data_raises)
    have it: "poll_iteration w sb mpu y t =
        (Some (fst (draw sb (bar_env t)), mpu),
         [GetNewKeys, ReadFromMemInto (address mpu) 0x3B (length (buffer mpu)),
          FillRect 0 (height sb) (display_width w) (display_height w - height sb) (palette w 2)] @
         snd (draw sb (bar_env t)) @
         [Text ''Read error!'' 5 y (palette w 10) vga1_8x16, Show, SleepMs 100])"
      using poll_iteration_read_error [OF k f(1), of w sb y] f(2)
      by (simp add: MPU_ACCEL_XOUT_H_def)
    then show "poll_iteration w sb mpu y t =
        (Some (fst (draw sb (bar_env t)), mpu),
         [GetNewKeys, ReadFromMemInto (address mpu) 0x3B (length (buffer mpu)),
          FillRect 0 (height sb) (display_width w) (display_height w - height sb) (palette w 2)] @
         snd (draw sb (bar_env t)) @
         [Text ''Read error!'' 5 y (palette w 10) vga1_8x16, Show, SleepMs 100]) \<and>
      polling_loop w sb mpu y (t # ts) =
        snd (poll_iteration w sb mpu y t) @
        polling_loop w (fst (draw sb (bar_env t))) mpu y ts"
      by simp
  qed
  have 3: "\<forall>ev \<in> set (polling_loop w sb mpu y ts). \<forall>s. ev \<noteq> Uncaught s"
    using polling_loop_no_uncaught [of _ w sb mpu y ts] by blast
  from 1 2 3 show ?thesis by blast
qed

theorem read_failure_recoverable_witness:
  "poll_iteration
     \<lparr>i2c_open = Inr \<lparr>scan_result = Inr [0x68], wake_result = (\<lambda>a. None)\<rparr>,
      palette = (\<lambda>i. i), display_width = 240, display_height = 135,
      battlevel_ok = False, icon_ok = False, fmt_f = (\<lambda>w p x. []),
      env_init = \<lparr>config = None, localtime = None, have_vga1_8x16 = True, have_vga1_8x8 = True,
                  read_level = None, bitmap_raises = False, tft_width = 240\<rparr>,
      env_error = \<lparr>config = None, localtime = None, have_vga1_8x16 = True, have_vga1_8x8 = True,
                   read_level = None, bitmap_raises = False, tft_width = 240\<rparr>\<rparr>
     \<lparr>height = 16, use_12h = False, last_time_str = ''--:--'', last_batt_level = - 1,
      battery = False, battery_icon = False\<rparr>
     \<lparr>address = 0x68, buffer = replicate 14 0\<rparr> 20
     \<lparr>keys = [], bus_read = None,
      bar_env = \<lparr>config = None, localtime = None, have_vga1_8x16 = True, have_vga1_8x8 = True,
                 read_level = None, bitmap_raises = False, tft_width = 240\<rparr>\<rparr> =
   (Some (\<lparr>height = 16, use_12h = False, last_time_str = ''--:--'', last_batt_level = - 1,
           battery = False, battery_icon = False\<rparr>,
          \<lparr>address = 0x68, buffer = replicate 14 0\<rparr>),
    [GetNewKeys, ReadFromMemInto 0x68 0x3B 14, FillRect 0 16 240 119 2,
     Text ''Read error!'' 5 20 10 vga1_8x16, Show, SleepMs 100])"
proof -
  let ?e = "\<lparr>config = None, localtime = None, have_vga1_8x16 = True, have_vga1_8x8 = True,
             read_level = None, bitmap_raises = False, tft_width = 240\<rparr>"
  let ?w = "\<lparr>i2c_open = Inr \<lparr>scan_result = Inr [0x68], wake_result = (\<lambda>a::nat. None :: string option)\<rparr>,
      palette = (\<lambda>i. i), display_width = 240, display_height = 135,
      battlevel_ok = False, icon_ok = False, fmt_f = (\<lambda>(w::nat) (p::nat) (x::pyfloat). []),
      env_init = ?e, env_error = ?e\<rparr>"
  let ?sb = "\<lparr>height = 16, use_12h = False, last_time_str = ''--:--'', last_batt_level = - 1,
      battery = False, battery_icon = False\<rparr>"
  let ?mpu = "\<lparr>address = 0x68, buffer = replicate 14 (0::byte)\<rparr>"
  let ?t = "\<lparr>keys = [], bus_read = None, bar_env = ?e\<rparr>"
  have d: "draw ?sb ?e = (?sb, [])"
    by (simp add: draw_def draw_time_def draw_battery_def time_str_def batt_level_def
          bar_colors_def Let_def)
  have "''G0'' \<notin> set (keys ?t) \<and> bus_read ?t = None" by simp
  then have "poll_iteration ?w ?sb ?mpu 20 ?t =
        (Some (fst (draw ?sb (bar_env ?t)), ?mpu),
         [GetNewKeys, ReadFromMemInto (address ?mpu) 0x3B (length (buffer ?mpu)),
          FillRect 0 (height ?sb) (display_width ?w) (display_height ?w - height ?sb) (palette ?w 2)] @
         snd (draw ?sb (bar_env ?t)) @
         [Text ''Read error!'' 5 20 (palette ?w 10) vga1_8x16, Show, SleepMs 100])"
    using read_failure_recoverable [of ?mpu ?t ?w ?sb 20 "[]"] by blast
  then show ?thesis using d by simp
qed

text \<open>
  Claim C8.  When discovery returns no handle, \<open>main\<close> shows the error screen and enters
  the loop of the error branch: after the events of discovery the trace holds display
  events and then, for each iteration, one poll of the keys followed by a sleep of 50 ms
  or, when the exit key is among them, by the reset.  The loop runs for as many
  iterations as are observed without the exit key, discovery is not run again, and no
  event of the whole trace is a bus read.
\<close>

theorem unavailable_is_terminal:
  "fst (fst (try_init_imu (i2c_open w))) = None \<Longrightarrow>
     (\<exists>screen.
        main w ticks =
          [Fill (palette w 2)] @
          snd (draw (StatusBar_init 16 False (battlevel_ok w) (icon_ok w)) (env_init w)) @
          [Text ''Initializing IMU...'' 5 20 (palette w 0) vga1_8x16, Show] @
          snd (try_init_imu (i2c_open w)) @ screen @ unavailable_loop (map keys ticks) \<and>
        (\<forall>ev \<in> set screen. is_display ev) \<and>
        (\<forall>ev \<in> set (screen @ unavailable_loop (map keys ticks)). \<not> is_i2c ev)) \<and>
     (\<forall>ev \<in> set (unavailable_loop (map keys ticks)).
        ev = GetNewKeys \<or> ev = SleepMs 50 \<or> ev = Reset) \<and>
     ((\<forall>t \<in> set ticks. ''G0'' \<notin> set (keys t)) \<longrightarrow>
        unavailable_loop (map keys ticks) = concat (map (\<lambda>t. [GetNewKeys, SleepMs 50]) ticks)) \<and>
     (\<forall>ev \<in> set (main w ticks). \<not> is_bus_read ev)"
proof -
  assume none: "fst (fst (try_init_imu (i2c_open w))) = None"
  let ?sb0 = "StatusBar_init 16 False (battlevel_ok w) (icon_ok w)"
  obtain sb1 evb where d: "draw ?sb0 (env_init w) = (sb1, evb)"
    by (cases "draw ?sb0 (env_init w)")
  obtain e where e: "snd (fst (try_init_imu (i2c_open w))) = Some e"
    using try_init_imu_error [OF none] by blast
  obtain evi where ti: "try_init_imu (i2c_open w) = ((None, Some e), evi)"
    using none e by (cases "try_init_imu (i2c_open w)") auto
  obtain screen where sc: "error_screen w sb1 (Some e) = (screen, True)"
    and scd: "\<forall>ev \<in> set screen. is_display ev"
    using error_screen_Some [of w sb1 e] by blast
  have m: "main w ticks =
          [Fill (palette w 2)] @ evb @
          [Text ''Initializing IMU...'' 5 20 (palette w 0) vga1_8x16, Show] @
          evi @ screen @ unavailable_loop (map keys ticks)"
    using d ti sc by (simp add: main_def Let_def)
  have 1: "\<exists>screen.
        main w ticks =
          [Fill (palette w 2)] @ snd (draw ?sb0 (env_init w)) @
          [Text ''Initializing IMU...'' 5 20 (palette w 0) vga1_8x16, Show] @
          snd (try_init_imu (i2c_open w)) @ screen @ unavailable_loop (map keys ticks) \<and>
        (\<forall>ev \<in> set screen. is_display ev) \<and>
        (\<forall>ev \<in> set (screen @ unavailable_loop (map keys ticks)). \<not> is_i2c ev)"
  proof -
    have "\<forall>ev \<in> set (screen @ unavailable_loop (map keys ticks)). \<not> is_i2c ev"
    proof
      fix ev assume "ev \<in> set (screen @ unavailable_loop (map keys ticks))"
      then have "is_display ev \<or> ev = GetNewKeys \<or> ev = SleepMs 50 \<or> ev = Reset"
        using scd unavailable_loop_events [of ev "map keys ticks"] by auto
      then show "\<not> is_i2c ev" by (cases ev) auto
    qed
    then show ?thesis using m d ti scd by auto
  qed
  have 2: "\<forall>ev \<in> set (unavailable_loop (map keys ticks)).
        ev = GetNewKeys \<or> ev = SleepMs 50 \<or> ev = Reset"
    using unavailable_loop_events by blast
  have 3: "(\<forall>t \<in> set ticks. ''G0'' \<notin> set (keys t)) \<longrightarrow>
        unavailable_loop (map keys ticks) = concat (map (\<lambda>t. [GetNewKeys, SleepMs 50]) ticks)"
    using unavailable_loop_runs [of "map keys ticks"] by (simp add: comp_def)
  have evb_d: "\<forall>ev \<in> set evb. is_display ev"
    using draw_display [of _ ?sb0 "env_init w"] d by simp
  have evi_r: "\<forall>ev \<in> set evi. \<not> is_bus_read ev"
    using try_init_imu_no_read [of _ "i2c_open w"] ti by simp
  have disp_r: "\<And>ev. is_display ev \<Longrightarrow> \<not> is_bus_read ev"
    by (case_tac ev) simp_all
  have 4: "\<forall>ev \<in> set (main w ticks). \<not> is_bus_read ev"
  proof
    fix ev assume "ev \<in> set (main w ticks)"
    then have "ev = Fill (palette w 2) \<or> ev \<in> set evb \<or>
        ev = Text ''Initializing IMU...'' 5 20 (palette w 0) vga1_8x16 \<or> ev = Show \<or>
        ev \<in> set evi \<or> ev \<in> set screen \<or> ev \<in> set (unavailable_loop (map keys ticks))"
      using m by auto
    then show "\<not> is_bus_read ev"
      using evb_d evi_r scd disp_r unavailable_loop_events [of ev "map keys ticks"] by auto
  qed
  from 1 2 3 4 show ?thesis by blast
qed

theorem unavailable_is_terminal_witness:
  "fst (fst (try_init_imu (i2c_open
     \<lparr>i2c_open = Inr \<lparr>scan_result = Inr [0x10], wake_result = (\<lambda>a. None)\<rparr>,
      palette = (\<lambda>i. i), display_width = 240, display_height = 135,
      battlevel_ok = False, icon_ok = False, fmt_f = (\<lambda>w p x. []),
      env_init = \<lparr>config = None, localtime = None, have_vga1_8x16 = True, have_vga1_8x8 = True,
                  read_level = None, bitmap_raises = False, tft_width = 240\<rparr>,
      env_error = \<lparr>config = None, localtime = None, have_vga1_8x16 = True, have_vga1_8x8 = True,
                   read_level = None, bitmap_raises = False, tft_width = 240\<rparr>\<rparr>))) = None \<and>
   filter is_bus_read (main
     \<lparr>i2c_open = Inr \<lparr>scan_result = Inr [0x10], wake_result = (\<lambda>a. None)\<rparr>,
      palette = (\<lambda>i. i), display_width = 240, display_height = 135,
      battlevel_ok = False, icon_ok = False, fmt_f = (\<lambda>w p x. []),
      env_init = \<lparr>config = None, localtime = None, have_vga1_8x16 = True, have_vga1_8x8 = True,
                  read_level = None, bitmap_raises = False, tft_width = 240\<rparr>,
      env_error = \<lparr>config = None, localtime = None, have_vga1_8x16 = True, have_vga1_8x8 = True,
                   read_level = None, bitmap_raises = False, tft_width = 240\<rparr>\<rparr>
     [\<lparr>keys = [], bus_read = None,
       bar_env = \<lparr>config = None, localtime = None, have_vga1_8x16 = True, have_vga1_8x8 = True,
                  read_level = None, bitmap_raises = False, tft_width = 240\<rparr>\<rparr>,
      \<lparr>keys = [''G0''], bus_read = None,
       bar_env = \<lparr>config = None, localtime = None, have_vga1_8x16 = True, have_vga1_8x8 = True,
                  read_level = None, bitmap_raises = False, tft_width = 240\<rparr>\<rparr>]) = []"
proof -
  let ?e = "\<lparr>config = None, localtime = None, have_vga1_8x16 = True, have_vga1_8x8 = True,
             read_level = None, bitmap_raises = False, tft_width = 240\<rparr>"
  let ?w = "\<lparr>i2c_open = Inr \<lparr>scan_result = Inr [0x10], wake_result = (\<lambda>a::nat. None :: string option)\<rparr>,
      palette = (\<lambda>i. i), display_width = 240, display_height = 135,
      battlevel_ok = False, icon_ok = False, fmt_f = (\<lambda>(w::nat) (p::nat) (x::pyfloat). []),
      env_init = ?e, env_error = ?e\<rparr>"
  let ?ticks = "[\<lparr>keys = [], bus_read = None, bar_env = ?e\<rparr>,
                 \<lparr>keys = [''G0''], bus_read = None, bar_env = ?e\<rparr>]"
  have none: "fst (fst (try_init_imu (i2c_open ?w))) = None"
    by (simp add: try_init_imu_def MPU_ADDRESSES_def)
  have "\<forall>ev \<in> set (main ?w ?ticks). \<not> is_bus_read ev"
    using unavailable_is_terminal [OF none, of ?ticks] by blast
  then have "filter is_bus_read (main ?w ?ticks) = []"
    by (simp only: filter_empty_conv)
  with none show ?thesis by blast
qed

text \<open>
  Claim C9.  Every iteration of the polling loop polls the keys exactly once, as its
  first event.  With the exit key among them the iteration resets at once, with no bus
  read and no drawing; without it the bus read comes second, the drawing after it and
  the sleep of 100 ms last.
\<close>

theorem exit_checked_first:
  "(\<exists>rest. snd (poll_iteration w sb mpu y t) = GetNewKeys # rest \<and>
      (\<forall>ev \<in> set rest. ev \<noteq> GetNewKeys)) \<and>
   (''G0'' \<in> set (keys t) \<longrightarrow> poll_iteration w sb mpu y t = (None, [GetNewKeys, Reset])) \<and>
   (''G0'' \<notin> set (keys t) \<longrightarrow>
      (\<exists>render. snd (poll_iteration w sb mpu y t) =
         GetNewKeys # ReadFromMemInto (address mpu) 0x3B (length (buffer mpu)) # render @ [SleepMs 100] \<and>
         (\<forall>ev \<in> set render. is_display ev)))"
proof -
  have 1: "\<exists>rest. snd (poll_iteration w sb mpu y t) = GetNewKeys # rest \<and>
      (\<forall>ev \<in> set rest. ev \<noteq> GetNewKeys)"
    using poll_iteration_shape [of w sb mpu y t] by auto
  have 2: "''G0'' \<in> set (keys t) \<longrightarrow> poll_iteration w sb mpu y t = (None, [GetNewKeys, Reset])"
    by (simp add: poll_iteration_exit)
  have 3: "''G0'' \<notin> set (keys t) \<longrightarrow>
      (\<exists>render. snd (poll_iteration w sb mpu y t) =
         GetNewKeys # ReadFromMemInto (address mpu) 0x3B (length (buffer mpu)) # render @ [SleepMs 100] \<and>
         (\<forall>ev \<in> set render. is_display ev))"
  proof
    assume k: "''G0'' \<notin> set (keys t)"
    obtain r m' ev where rd: "read_scaled_data mpu (bus_read t) = (r, m', ev)"
      by (cases "read_scaled_data mpu (bus_read t)")
    have ev: "ev = [ReadFromMemInto (address mpu) 0x3B (length (buffer mpu))]"
      using read_scaled_data_events [of mpu "bus_read t"] rd by (simp add: MPU_ACCEL_XOUT_H_def)
    obtain sb' evb where d: "draw sb (bar_env t) = (sb', evb)" by (cases "draw sb (bar_env t)")
    have disp: "\<forall>e \<in> set evb. is_display e"
      using draw_display [of _ sb "bar_env t"] d by simp
    show "\<exists>render. snd (poll_iteration w sb mpu y t) =
         GetNewKeys # ReadFromMemInto (address mpu) 0x3B (length (buffer mpu)) # render @ [SleepMs 100] \<and>
         (\<forall>ev \<in> set render. is_display ev)"
    proof (cases r)
      case None
      let ?render = "FillRect 0 (height sb) (display_width w) (display_height w - height sb) (palette w 2)
         # evb @ [Text ''Read error!'' 5 y (palette w 10) vga1_8x16, Show]"
      have "snd (poll_iteration w sb mpu y t) =
         GetNewKeys # ReadFromMemInto (address mpu) 0x3B (length (buffer mpu)) # ?render @ [SleepMs 100]"
        using k rd ev d None by (simp add: poll_iteration_def)
      moreover have "\<forall>ev \<in> set ?render. is_display ev" using disp by simp
      ultimately show ?thesis by blast
    next
      case (Some smp)
      obtain ax ay az gx gy gz where smp: "smp = (ax, ay, az, gx, gy, gz)"
        by (cases smp) auto
      obtain pitch roll where
        pr: "compute_pitch_roll (float_of_real ax) (float_of_real ay) (float_of_real az) = (pitch, roll)"
        by (cases "compute_pitch_roll (float_of_real ax) (float_of_real ay) (float_of_real az)")
      let ?render = "butlast (tl (tl (snd (poll_iteration w sb mpu y t))))"
      have "snd (poll_iteration w sb mpu y t) =
         GetNewKeys # ReadFromMemInto (address mpu) 0x3B (length (buffer mpu)) # ?render @ [SleepMs 100]"
        using k rd ev d Some smp pr by (simp add: poll_iteration_def Let_def butlast_append)
      moreover have "\<forall>ev \<in> set ?render. is_display ev"
        using k rd ev d Some smp pr disp by (simp add: poll_iteration_def Let_def butlast_append)
      ultimately show ?thesis by blast
    qed
  qed
  from 1 2 3 show ?thesis by blast
qed

theorem exit_checked_first_witness:
  "poll_iteration
     \<lparr>i2c_open = Inr \<lparr>scan_result = Inr [0x68], wake_result = (\<lambda>a. None)\<rparr>,
      palette = (\<lambda>i. i), display_width = 240, display_height = 135,
      battlevel_ok = False, icon_ok = False, fmt_f = (\<lambda>w p x. []),
      env_init = \<lparr>config = None, localtime = None, have_vga1_8x16 = True, have_vga1_8x8 = True,
                  read_level = None, bitmap_raises = False, tft_width = 240\<rparr>,
      env_error = \<lparr>config = None, localtime = None, have_vga1_8x16 = True, have_vga1_8x8 = True,
                   read_level = None, bitmap_raises = False, tft_width = 240\<rparr>\<rparr>
     \<lparr>height = 16, use_12h = False, last_time_str = ''--:--'', last_batt_level = - 1,
      battery = False, battery_icon = False\<rparr>
     \<lparr>address = 0x68, buffer = replicate 14 0\<rparr> 20
     \<lparr>keys = [''a'', ''G0''], bus_read = None,
      bar_env = \<lparr>config = None, localtime = None, have_vga1_8x16 = True, have_vga1_8x8 = True,
                 read_level = None, bitmap_raises = False, tft_width = 240\<rparr>\<rparr> =
   (None, [GetNewKeys, Reset])"
proof -
  let ?e = "\<lparr>config = None, localtime = None, have_vga1_8x16 = True, have_vga1_8x8 = True,
             read_level = None, bitmap_raises = False, tft_width = 240\<rparr>"
  let ?w = "\<lparr>i2c_open = Inr \<lparr>scan_result = Inr [0x68], wake_result = (\<lambda>a::nat. None :: string option)\<rparr>,
      palette = (\<lambda>i. i), display_width = 240, display_height = 135,
      battlevel_ok = False, icon_ok = False, fmt_f = (\<lambda>(w::nat) (p::nat) (x::pyfloat). []),
      env_init = ?e, env_error = ?e\<rparr>"
  let ?sb = "\<lparr>height = 16, use_12h = False, last_time_str = ''--:--'', last_batt_level = - 1,
      battery = False, battery_icon = False\<rparr>"
  let ?mpu = "\<lparr>address = 0x68, buffer = replicate 14 (0::byte)\<rparr>"
  let ?t = "\<lparr>keys = [''a'', ''G0''], bus_read = None, bar_env = ?e\<rparr>"
  have "''G0'' \<in> set (keys ?t)" by simp
  then show ?thesis using exit_checked_first [of ?w ?sb ?mpu 20 ?t] by blast
qed

end
